theory Spec2Isabelle
  imports Complex_Main
begin

section \<open>Python values, exceptions and generators\<close>

text \<open>
  The service is written in Python. A value of \<open>exn\<close> stands for an instance of a subclass
  of Python's \<open>Exception\<close>, which is what every \<open>except Exception\<close> clause of the source
  catches; \<open>WaveError\<close> is \<open>wave.Error\<close>, \<open>StructError\<close> is \<open>struct.error\<close>, and
  \<open>EngineError\<close> is any exception raised inside a recognition engine or by the
  operating system.
\<close>

datatype exn =
    ImportError string
  | ValueError string
  | AttributeError
  | TypeError
  | IndexError
  | AssertionError
  | WaveError string
  | StructError
  | EngineError string

text \<open>
  The engines hand back dynamically typed results: dictionaries, lists, strings, numbers
  and plain objects with data attributes. A \<open>string\<close> is a Python \<open>str\<close> whose code points
  are below 256, one \<open>char\<close> each. No arithmetic is done on numbers (time stamps are only
  passed on), so one constructor stands for both \<open>int\<close> and \<open>float\<close>.
\<close>

datatype pyval =
    PNone
  | PNum rat
  | PStr string
  | PList "pyval list"
  | PDict "(string \<times> pyval) list"
  | PObj "(string \<times> pyval) list"

text \<open>Truth value of an object, as \<open>if x:\<close> and \<open>x and y\<close> test it.\<close>

fun truthy :: "pyval \<Rightarrow> bool" where
  "truthy PNone = False"
| "truthy (PNum r) = (r \<noteq> 0)"
| "truthy (PStr s) = (s \<noteq> [])"
| "truthy (PList xs) = (xs \<noteq> [])"
| "truthy (PDict kvs) = (kvs \<noteq> [])"
| "truthy (PObj attrs) = True"

fun py_hasattr :: "pyval \<Rightarrow> string \<Rightarrow> bool" where
  "py_hasattr (PObj attrs) name = (map_of attrs name \<noteq> None)"
| "py_hasattr v name = False"

fun py_getattr :: "pyval \<Rightarrow> string \<Rightarrow> exn + pyval" where
  "py_getattr (PObj attrs) name =
     (case map_of attrs name of None \<Rightarrow> Inl AttributeError | Some x \<Rightarrow> Inr x)"
| "py_getattr v name = Inl AttributeError"

text \<open>\<open>d.get(key, default)\<close>: only a dictionary has the method.\<close>

fun py_get :: "pyval \<Rightarrow> string \<Rightarrow> pyval \<Rightarrow> exn + pyval" where
  "py_get (PDict kvs) key dflt =
     Inr (case map_of kvs key of None \<Rightarrow> dflt | Some x \<Rightarrow> x)"
| "py_get v key dflt = Inl AttributeError"

fun py_len :: "pyval \<Rightarrow> exn + nat" where
  "py_len (PList xs) = Inr (length xs)"
| "py_len (PDict kvs) = Inr (length kvs)"
| "py_len (PStr s) = Inr (length s)"
| "py_len v = Inl TypeError"

text \<open>The items a \<open>for\<close> loop runs over: a dictionary gives its keys, a string its characters.\<close>

fun py_iter :: "pyval \<Rightarrow> exn + pyval list" where
  "py_iter (PList xs) = Inr xs"
| "py_iter (PDict kvs) = Inr (map (\<lambda>kv. PStr (fst kv)) kvs)"
| "py_iter (PStr s) = Inr (map (\<lambda>c. PStr [c]) s)"
| "py_iter v = Inl TypeError"

subsection \<open>String methods\<close>

text \<open>\<open>str.isspace\<close> on one code point below 256.\<close>

definition isspace :: "char \<Rightarrow> bool" where
  "isspace c =
     (let n = (of_char c :: nat)
      in (9 \<le> n \<and> n \<le> 13) \<or> (28 \<le> n \<and> n \<le> 32) \<or> n = 133 \<or> n = 160)"

definition strip :: "string \<Rightarrow> string" where
  "strip s = rev (dropWhile isspace (rev (dropWhile isspace s)))"

fun py_strip :: "pyval \<Rightarrow> exn + string" where
  "py_strip (PStr s) = Inr (strip s)"
| "py_strip v = Inl AttributeError"

definition lower_char :: "char \<Rightarrow> char" where
  "lower_char c =
     (let n = (of_char c :: nat)
      in if (65 \<le> n \<and> n \<le> 90) \<or> (192 \<le> n \<and> n \<le> 222 \<and> n \<noteq> 215)
         then char_of (n + 32) else c)"

definition lower :: "string \<Rightarrow> string" where
  "lower s = map lower_char s"

fun startswith :: "string \<Rightarrow> string \<Rightarrow> bool" where
  "startswith s [] = True"
| "startswith [] (p # ps) = False"
| "startswith (c # cs) (p # ps) = (c = p \<and> startswith cs ps)"

text \<open>\<open>sub in s\<close> on strings.\<close>

fun contains :: "string \<Rightarrow> string \<Rightarrow> bool" where
  "contains sub [] = (sub = [])"
| "contains sub (c # cs) = (startswith (c # cs) sub \<or> contains sub cs)"

text \<open>\<open>sep.join(xs)\<close>.\<close>

fun join :: "string \<Rightarrow> string list \<Rightarrow> string" where
  "join sep [] = []"
| "join sep [x] = x"
| "join sep (x # y # ys) = x @ sep @ join sep (y # ys)"

subsection \<open>Generators\<close>

text \<open>
  A generator that is run to its end has yielded finitely many items and then either
  returned or raised. \<open>transcribe\<close> of the MLX and OpenAI back ends is a generator
  function: calling it runs nothing, and an exception of its body is raised while the
  caller iterates.
\<close>

datatype 'a gen = Done | Yield 'a "'a gen" | Raise exn

text \<open>A \<open>try ... except Exception as e\<close> around a generator body.\<close>

fun catch_gen :: "'a gen \<Rightarrow> (exn \<Rightarrow> 'a gen) \<Rightarrow> 'a gen" where
  "catch_gen Done h = Done"
| "catch_gen (Yield x g) h = Yield x (catch_gen g h)"
| "catch_gen (Raise e) h = h e"

text \<open>What a caller who iterates to the end gets: every item, or the exception.\<close>

fun consume :: "'a gen \<Rightarrow> exn + 'a list" where
  "consume Done = Inr []"
| "consume (Yield x g) = (case consume g of Inl e \<Rightarrow> Inl e | Inr xs \<Rightarrow> Inr (x # xs))"
| "consume (Raise e) = Inl e"

text \<open>The items yielded before the generator returned or raised.\<close>

fun yielded :: "'a gen \<Rightarrow> 'a list" where
  "yielded Done = []"
| "yielded (Yield x g) = x # yielded g"
| "yielded (Raise e) = []"

fun raises :: "'a gen \<Rightarrow> exn option" where
  "raises Done = None"
| "raises (Yield x g) = raises g"
| "raises (Raise e) = Some e"

fun gen_of_list :: "'a list \<Rightarrow> 'a gen" where
  "gen_of_list [] = Done"
| "gen_of_list (x # xs) = Yield x (gen_of_list xs)"

section \<open>The host and back-end detection (backends/factory.py)\<close>

text \<open>
  What the process reads from its host: \<open>platform.machine()\<close>, \<open>platform.system()\<close>, the
  modules an \<open>import\<close> finds, the \<open>OPENAI_API_KEY\<close> variable of the environment, and
  whether \<open>open(path, 'rb')\<close> raises.
\<close>

record host =
  platform_machine :: string
  platform_system :: string
  modules :: "string list"
  OPENAI_API_KEY :: "string option"
  open_rb :: "string \<Rightarrow> exn option"

definition importable :: "host \<Rightarrow> string \<Rightarrow> bool" where
  "importable h m = (m \<in> set (modules h))"

text \<open>
  Each \<open>try: import m; return name; except ImportError: pass\<close> returns when the module is
  found and falls through when it is not; the first one is tried on Apple silicon only.
\<close>

definition detect_optimal_backend :: "host \<Rightarrow> exn + string" where
  "detect_optimal_backend h =
     (let machine = lower (platform_machine h);
          system = lower (platform_system h)
      in case (if system = ''darwin'' \<and> (contains ''arm'' machine \<or> contains ''aarch'' machine)
               then (if importable h ''mlx_whisper'' then Some ''mlx-whisper'' else None)
               else None) of
           Some name \<Rightarrow> Inr name
         | None \<Rightarrow>
             if importable h ''faster_whisper'' then Inr ''faster-whisper''
             else if importable h ''whisper'' then Inr ''openai-whisper''
             else Inl (ImportError
               ''No Whisper backend available. Install one of: faster-whisper, mlx-whisper, or openai-whisper''))"

section \<open>The back ends\<close>

text \<open>
  \<open>transcribe\<close> is given the path of the wave file the session has just closed. The model
  passes the file itself: its path, its header and its frames. A value of the record is
  a file after a call of \<open>writeframes\<close> that has returned: its header is written and the
  lengths in it are those of the data, so that closing it writes nothing more.
\<close>

record audio_file =
  af_path :: string
  af_framerate :: int
  af_sampwidth :: int
  af_nchannels :: int
  af_frames :: string

text \<open>The keyword arguments the session handler passes to \<open>transcribe\<close>.\<close>

record kwargs =
  kw_language :: "string option"
  kw_initial_prompt :: "string option"
  kw_beam_size :: "int option"

text \<open>\<open>if kwargs.get(key):\<close> on a key that holds a string or \<open>None\<close>, or is absent.\<close>

fun given :: "string option \<Rightarrow> bool" where
  "given None = False"
| "given (Some s) = (s \<noteq> [])"

text \<open>The keyword arguments \<open>main\<close> and the factory pass to a constructor.\<close>

record backend_kwargs =
  bk_download_dir :: "string option"
  bk_device :: "string option"
  bk_compute_type :: "string option"
  bk_api_key :: "string option"

record attribution =
  attr_name :: string
  attr_url :: string

subsection \<open>MLX (backends/mlx\_whisper.py)\<close>

record mlx_options =
  path_or_hf_repo :: string
  verbose :: bool
  opt_language :: "string option"
  opt_initial_prompt :: "string option"

text \<open>The \<open>mlx_whisper\<close> module: its \<open>transcribe\<close> function and its \<open>__version__\<close>, if it has one.\<close>

record mlx_module =
  mlx_transcribe :: "audio_file \<Rightarrow> mlx_options \<Rightarrow> exn + pyval"
  mlx_version :: "string option"

record MLXWhisperBackend =
  mlx_whisper :: mlx_module
  model_path :: string

definition MLXWhisperBackend_init ::
  "host \<Rightarrow> mlx_module \<Rightarrow> string \<Rightarrow> backend_kwargs \<Rightarrow> exn + MLXWhisperBackend" where
  "MLXWhisperBackend_init h m model_name bk =
     (if \<not> importable h ''mlx_whisper''
      then Inl (ImportError ''MLX Whisper not available. Install with: pip install mlx-whisper'')
      else Inr \<lparr>mlx_whisper = m,
                model_path =
                  (if startswith model_name ''mlx-community/'' then model_name
                   else if model_name \<in> set [''tiny'', ''base'', ''small'', ''medium'', ''large'']
                   then ''mlx-community/whisper-'' @ model_name @ ''-mlx''
                   else ''mlx-community/whisper-tiny-mlx'')\<rparr>)"

text \<open>The local class \<open>Segment\<close> of the \<open>try\<close> block, and the one of the \<open>except\<close> block.\<close>

definition Segment3 :: "string \<Rightarrow> pyval \<Rightarrow> pyval \<Rightarrow> pyval" where
  "Segment3 t s e = PObj [(''text'', PStr t), (''start'', s), (''end'', e)]"

definition Segment1 :: "pyval \<Rightarrow> pyval" where
  "Segment1 t = PObj [(''text'', t)]"

text \<open>The loop over \<open>result['segments']\<close>.\<close>

fun mlx_segments :: "pyval list \<Rightarrow> pyval gen" where
  "mlx_segments [] = Done"
| "mlx_segments (segment # rest) =
     (case py_get segment ''text'' (PStr []) of
        Inl e \<Rightarrow> Raise e
      | Inr t \<Rightarrow>
          (case py_strip t of
             Inl e \<Rightarrow> Raise e
           | Inr txt \<Rightarrow>
               if txt \<noteq> [] then
                 (case py_get segment ''start'' (PNum 0) of
                    Inl e \<Rightarrow> Raise e
                  | Inr s \<Rightarrow>
                      (case py_get segment ''end'' (PNum 0) of
                         Inl e \<Rightarrow> Raise e
                       | Inr e \<Rightarrow> Yield (Segment3 txt s e) (mlx_segments rest)))
               else mlx_segments rest))"

text \<open>The \<open>elif 'text' in result\<close> branch and the \<open>else\<close> after it.\<close>

definition mlx_full_text :: "(string \<times> pyval) list \<Rightarrow> pyval gen" where
  "mlx_full_text d =
     (case map_of d ''text'' of
        Some t \<Rightarrow>
          (case py_strip t of
             Inl e \<Rightarrow> Raise e
           | Inr txt \<Rightarrow>
               if txt \<noteq> [] then Yield (Segment3 txt (PNum 0) (PNum 0)) Done else Done)
      | None \<Rightarrow> Done)"

text \<open>The dictionary \<open>transcribe_options\<close>.\<close>

definition mlx_transcribe_options :: "MLXWhisperBackend \<Rightarrow> kwargs \<Rightarrow> mlx_options" where
  "mlx_transcribe_options b kw =
     \<lparr>path_or_hf_repo = model_path b, verbose = False,
      opt_language = (if given (kw_language kw) then kw_language kw else None),
      opt_initial_prompt =
        (if given (kw_initial_prompt kw) then kw_initial_prompt kw else None)\<rparr>"

text \<open>
  The body of the \<open>try\<close> block of \<open>transcribe\<close>. The debug message of the segments branch
  is an f-string that calls \<open>len\<close>, which is evaluated whatever the log level is.
\<close>

definition mlx_try :: "MLXWhisperBackend \<Rightarrow> audio_file \<Rightarrow> kwargs \<Rightarrow> pyval gen" where
  "mlx_try b audio_path kw =
     (case mlx_transcribe (mlx_whisper b) audio_path (mlx_transcribe_options b kw) of
        Inl e \<Rightarrow> Raise e
      | Inr result \<Rightarrow>
          (case result of
             PDict d \<Rightarrow>
               (case map_of d ''segments'' of
                  Some segs \<Rightarrow>
                    if truthy segs then
                      (case py_len segs of
                         Inl e \<Rightarrow> Raise e
                       | Inr n \<Rightarrow>
                           (case py_iter segs of
                              Inl e \<Rightarrow> Raise e
                            | Inr items \<Rightarrow> mlx_segments items))
                    else mlx_full_text d
                | None \<Rightarrow> mlx_full_text d)
           | _ \<Rightarrow> Done))"

definition MLXWhisperBackend_transcribe ::
  "MLXWhisperBackend \<Rightarrow> audio_file \<Rightarrow> kwargs \<Rightarrow> pyval gen" where
  "MLXWhisperBackend_transcribe b audio_path kw =
     catch_gen (mlx_try b audio_path kw) (\<lambda>e. Yield (Segment1 (PStr [])) Done)"

definition MLXWhisperBackend_get_supported_languages :: "MLXWhisperBackend \<Rightarrow> string list" where
  "MLXWhisperBackend_get_supported_languages b =
     [''en'', ''es'', ''fr'', ''de'', ''it'', ''pt'', ''ru'', ''ja'', ''ko'', ''zh'']"

definition MLXWhisperBackend_get_version :: "MLXWhisperBackend \<Rightarrow> string" where
  "MLXWhisperBackend_get_version b =
     (case mlx_version (mlx_whisper b) of None \<Rightarrow> ''1.0.0'' | Some v \<Rightarrow> v)"

definition MLXWhisperBackend_get_attribution :: "MLXWhisperBackend \<Rightarrow> attribution" where
  "MLXWhisperBackend_get_attribution b =
     \<lparr>attr_name = ''MLX Community'', attr_url = ''https://github.com/ml-explore/mlx-examples/''\<rparr>"

subsection \<open>OpenAI (backends/openai\_whisper\_api.py)\<close>

record openai_request =
  req_model :: string
  req_file :: audio_file
  req_response_format :: string
  req_language :: "string option"
  req_prompt :: "string option"

text \<open>The client object: \<open>client.audio.transcriptions.create\<close>.\<close>

record openai_client =
  create :: "openai_request \<Rightarrow> exn + pyval"

text \<open>The \<open>openai\<close> package: the constructor \<open>OpenAI(api_key=...)\<close> and \<open>__version__\<close>.\<close>

record openai_module =
  OpenAI_client :: "string \<Rightarrow> exn + openai_client"
  openai_version :: string

record OpenAIWhisperBackend =
  client :: openai_client
  oa_model_name :: string

text \<open>\<open>a or b\<close> on two values that are a string or \<open>None\<close>.\<close>

definition py_or :: "string option \<Rightarrow> string option \<Rightarrow> string option" where
  "py_or a b = (if given a then a else b)"

definition OpenAIWhisperBackend_init ::
  "host \<Rightarrow> openai_module \<Rightarrow> string \<Rightarrow> backend_kwargs \<Rightarrow> exn + OpenAIWhisperBackend" where
  "OpenAIWhisperBackend_init h m model_name bk =
     (if \<not> importable h ''openai''
      then Inl (ImportError ''OpenAI package not installed. Install with: pip install openai'')
      else
        (case py_or (bk_api_key bk) (OPENAI_API_KEY h) of
           None \<Rightarrow> Inl (ValueError
             ''OpenAI API key required. Set OPENAI_API_KEY environment variable or pass api_key parameter'')
         | Some api_key \<Rightarrow>
             if api_key = [] then Inl (ValueError
               ''OpenAI API key required. Set OPENAI_API_KEY environment variable or pass api_key parameter'')
             else
               (case OpenAI_client m api_key of
                  Inl e \<Rightarrow> Inl e
                | Inr c \<Rightarrow>
                    Inr \<lparr>client = c,
                         oa_model_name =
                           (if model_name \<notin> set [''whisper-1''] then ''whisper-1''
                            else model_name)\<rparr>)))"

text \<open>The loop over \<open>response.segments\<close>.\<close>

fun openai_segments :: "pyval list \<Rightarrow> pyval gen" where
  "openai_segments [] = Done"
| "openai_segments (segment # rest) =
     (case py_getattr segment ''text'' of
        Inl e \<Rightarrow> Raise e
      | Inr t \<Rightarrow> Yield (Segment1 t) (openai_segments rest))"

text \<open>The \<open>else\<close> branch: one segment with the full text.\<close>

definition openai_full_text :: "pyval \<Rightarrow> pyval gen" where
  "openai_full_text response =
     (case py_getattr response ''text'' of
        Inl e \<Rightarrow> Raise e
      | Inr t \<Rightarrow> Yield (Segment1 t) Done)"

text \<open>The dictionary \<open>transcribe_kwargs\<close>.\<close>

definition openai_transcribe_kwargs ::
  "OpenAIWhisperBackend \<Rightarrow> audio_file \<Rightarrow> kwargs \<Rightarrow> openai_request" where
  "openai_transcribe_kwargs b audio_file kw =
     \<lparr>req_model = oa_model_name b, req_file = audio_file,
      req_response_format = ''verbose_json'',
      req_language = (if given (kw_language kw) then kw_language kw else None),
      req_prompt = (if given (kw_initial_prompt kw) then kw_initial_prompt kw else None)\<rparr>"

text \<open>The body of the \<open>try\<close> block of \<open>transcribe\<close>.\<close>

definition openai_try ::
  "host \<Rightarrow> OpenAIWhisperBackend \<Rightarrow> audio_file \<Rightarrow> kwargs \<Rightarrow> pyval gen" where
  "openai_try h b audio_path kw =
     (case open_rb h (af_path audio_path) of
        Some e \<Rightarrow> Raise e
      | None \<Rightarrow>
          (case create (client b) (openai_transcribe_kwargs b audio_path kw) of
             Inl e \<Rightarrow> Raise e
           | Inr response \<Rightarrow>
               (case py_getattr response ''segments'' of
                  Inr segs \<Rightarrow>
                    (if truthy segs then
                       (case py_iter segs of
                          Inl e \<Rightarrow> Raise e
                        | Inr items \<Rightarrow> openai_segments items)
                     else openai_full_text response)
                | Inl e \<Rightarrow> openai_full_text response)))"

text \<open>The \<open>except Exception\<close> clause logs the exception and raises it again.\<close>

definition OpenAIWhisperBackend_transcribe ::
  "host \<Rightarrow> OpenAIWhisperBackend \<Rightarrow> audio_file \<Rightarrow> kwargs \<Rightarrow> pyval gen" where
  "OpenAIWhisperBackend_transcribe h b audio_path kw =
     catch_gen (openai_try h b audio_path kw) (\<lambda>e. Raise e)"

definition OpenAIWhisperBackend_get_supported_languages ::
  "OpenAIWhisperBackend \<Rightarrow> string list" where
  "OpenAIWhisperBackend_get_supported_languages b =
     [''af'', ''am'', ''ar'', ''as'', ''az'', ''ba'', ''be'', ''bg'', ''bn'', ''bo'', ''br'', ''bs'',
      ''ca'', ''cs'', ''cy'', ''da'', ''de'', ''el'', ''en'', ''es'', ''et'', ''eu'', ''fa'', ''fi'',
      ''fo'', ''fr'', ''gl'', ''gu'', ''ha'', ''haw'', ''he'', ''hi'', ''hr'', ''ht'', ''hu'', ''hy'',
      ''id'', ''is'', ''it'', ''ja'', ''jw'', ''ka'', ''kk'', ''km'', ''kn'', ''ko'', ''la'', ''lb'',
      ''ln'', ''lo'', ''lt'', ''lv'', ''mg'', ''mi'', ''mk'', ''ml'', ''mn'', ''mr'', ''ms'', ''mt'',
      ''my'', ''ne'', ''nl'', ''nn'', ''no'', ''oc'', ''pa'', ''pl'', ''ps'', ''pt'', ''ro'', ''ru'',
      ''sa'', ''sd'', ''si'', ''sk'', ''sl'', ''sn'', ''so'', ''sq'', ''sr'', ''su'', ''sv'', ''sw'',
      ''ta'', ''te'', ''tg'', ''th'', ''tk'', ''tl'', ''tr'', ''tt'', ''uk'', ''ur'', ''uz'', ''vi'',
      ''yi'', ''yo'', ''zh'']"

text \<open>\<open>import openai\<close> inside a \<open>try\<close> with a bare \<open>except\<close>.\<close>

definition OpenAIWhisperBackend_get_version ::
  "host \<Rightarrow> openai_module \<Rightarrow> OpenAIWhisperBackend \<Rightarrow> string" where
  "OpenAIWhisperBackend_get_version h m b =
     (if importable h ''openai'' then ''openai-api-'' @ openai_version m
      else ''openai-api-unknown'')"

definition OpenAIWhisperBackend_get_attribution :: "OpenAIWhisperBackend \<Rightarrow> attribution" where
  "OpenAIWhisperBackend_get_attribution b =
     \<lparr>attr_name = ''OpenAI'',
      attr_url = ''https://platform.openai.com/docs/guides/speech-to-text''\<rparr>"

subsection \<open>faster-whisper (backends/faster\_whisper.py)\<close>

text \<open>
  The loaded model: \<open>model.transcribe(path, beam_size, language, initial_prompt)\<close> gives a
  pair of a lazy segment sequence and an info object, or raises.
\<close>

record fw_model =
  fw_transcribe ::
    "audio_file \<Rightarrow> int \<Rightarrow> string option \<Rightarrow> string option \<Rightarrow> exn + (pyval gen \<times> pyval)"

text \<open>
  The \<open>faster_whisper\<close> module: \<open>WhisperModel(name, download_root, device, compute_type)\<close>,
  \<open>__version__\<close> and \<open>tokenizer._LANGUAGE_CODES\<close>.
\<close>

record fw_module =
  WhisperModel :: "string \<Rightarrow> string option \<Rightarrow> string \<Rightarrow> string \<Rightarrow> exn + fw_model"
  fw_version :: string
  fw_LANGUAGE_CODES :: "string list"

record FasterWhisperBackend =
  fwb_model :: fw_model
  fwb_faster_whisper :: fw_module

text \<open>\<open>kwargs.get(key, default)\<close>.\<close>

fun get_default :: "'a option \<Rightarrow> 'a \<Rightarrow> 'a" where
  "get_default None d = d"
| "get_default (Some x) d = x"

definition FasterWhisperBackend_init ::
  "host \<Rightarrow> fw_module \<Rightarrow> string \<Rightarrow> backend_kwargs \<Rightarrow> exn + FasterWhisperBackend" where
  "FasterWhisperBackend_init h m model_name bk =
     (if \<not> importable h ''faster_whisper''
      then Inl (ImportError (''No module named '' @ [CHR 0x27] @ ''faster_whisper'' @ [CHR 0x27]))
      else
        (case WhisperModel m model_name (bk_download_dir bk)
                (get_default (bk_device bk) ''cpu'')
                (get_default (bk_compute_type bk) ''default'') of
           Inl e \<Rightarrow> Inl e
         | Inr md \<Rightarrow> Inr \<lparr>fwb_model = md, fwb_faster_whisper = m\<rparr>))"

text \<open>An ordinary function, not a generator: an exception of the engine's call leaves it.\<close>

definition FasterWhisperBackend_transcribe ::
  "FasterWhisperBackend \<Rightarrow> audio_file \<Rightarrow> kwargs \<Rightarrow> exn + pyval gen" where
  "FasterWhisperBackend_transcribe b audio_path kw =
     (case fw_transcribe (fwb_model b) audio_path
             (get_default (kw_beam_size kw) 5) (kw_language kw) (kw_initial_prompt kw) of
        Inl e \<Rightarrow> Inl e
      | Inr (segments, info) \<Rightarrow> Inr segments)"

definition FasterWhisperBackend_get_supported_languages ::
  "FasterWhisperBackend \<Rightarrow> string list" where
  "FasterWhisperBackend_get_supported_languages b = fw_LANGUAGE_CODES (fwb_faster_whisper b)"

definition FasterWhisperBackend_get_version :: "FasterWhisperBackend \<Rightarrow> string" where
  "FasterWhisperBackend_get_version b = fw_version (fwb_faster_whisper b)"

definition FasterWhisperBackend_get_attribution :: "FasterWhisperBackend \<Rightarrow> attribution" where
  "FasterWhisperBackend_get_attribution b =
     \<lparr>attr_name = ''Guillaume Klein'',
      attr_url = ''https://github.com/guillaumekln/faster-whisper/''\<rparr>"

subsection \<open>The abstract class and the factory (backends/base.py, backends/factory.py)\<close>

text \<open>The three engine packages, as the process would import them.\<close>

record engines =
  faster_whisper_module :: fw_module
  mlx_whisper_module :: mlx_module
  openai_package :: openai_module

datatype WhisperBackend =
    Faster FasterWhisperBackend
  | Mlx MLXWhisperBackend
  | OpenAI OpenAIWhisperBackend

text \<open>The method call \<open>backend.transcribe(path, **kwargs)\<close>, dispatched on the class.\<close>

fun transcribe :: "host \<Rightarrow> WhisperBackend \<Rightarrow> audio_file \<Rightarrow> kwargs \<Rightarrow> exn + pyval gen" where
  "transcribe h (Faster b) audio_path kw = FasterWhisperBackend_transcribe b audio_path kw"
| "transcribe h (Mlx b) audio_path kw = Inr (MLXWhisperBackend_transcribe b audio_path kw)"
| "transcribe h (OpenAI b) audio_path kw = Inr (OpenAIWhisperBackend_transcribe h b audio_path kw)"

fun get_supported_languages :: "WhisperBackend \<Rightarrow> string list" where
  "get_supported_languages (Faster b) = FasterWhisperBackend_get_supported_languages b"
| "get_supported_languages (Mlx b) = MLXWhisperBackend_get_supported_languages b"
| "get_supported_languages (OpenAI b) = OpenAIWhisperBackend_get_supported_languages b"

fun get_version :: "host \<Rightarrow> engines \<Rightarrow> WhisperBackend \<Rightarrow> string" where
  "get_version h en (Faster b) = FasterWhisperBackend_get_version b"
| "get_version h en (Mlx b) = MLXWhisperBackend_get_version b"
| "get_version h en (OpenAI b) = OpenAIWhisperBackend_get_version h (openai_package en) b"

fun get_attribution :: "WhisperBackend \<Rightarrow> attribution" where
  "get_attribution (Faster b) = FasterWhisperBackend_get_attribution b"
| "get_attribution (Mlx b) = MLXWhisperBackend_get_attribution b"
| "get_attribution (OpenAI b) = OpenAIWhisperBackend_get_attribution b"

text \<open>The registry \<open>_backends\<close>: names and constructors, in the order of the dictionary.\<close>

definition backends ::
  "host \<Rightarrow> engines \<Rightarrow> (string \<times> (string \<Rightarrow> backend_kwargs \<Rightarrow> exn + WhisperBackend)) list" where
  "backends h en =
     [(''faster-whisper'', \<lambda>model_name bk.
         map_sum id Faster (FasterWhisperBackend_init h (faster_whisper_module en) model_name bk)),
      (''mlx-whisper'', \<lambda>model_name bk.
         map_sum id Mlx (MLXWhisperBackend_init h (mlx_whisper_module en) model_name bk)),
      (''openai-whisper'', \<lambda>model_name bk.
         map_sum id OpenAI (OpenAIWhisperBackend_init h (openai_package en) model_name bk))]"

definition get_available_backends :: "host \<Rightarrow> engines \<Rightarrow> string list" where
  "get_available_backends h en = map fst (backends h en)"

definition create_backend ::
  "host \<Rightarrow> engines \<Rightarrow> string \<Rightarrow> string \<Rightarrow> backend_kwargs \<Rightarrow> exn + WhisperBackend" where
  "create_backend h en backend_name model_name bk =
     (case map_of (backends h en) backend_name of
        None \<Rightarrow>
          Inl (ValueError (''Unknown backend '' @ [CHR 0x27] @ backend_name @ [CHR 0x27]
                 @ ''. Available: ''
                 @ join '', '' (get_available_backends h en)))
      | Some backend_class \<Rightarrow> backend_class model_name bk)"

section \<open>The session handler (handler.py)\<close>

text \<open>The capability descriptor: \<open>Info\<close> with its \<open>AsrProgram\<close> and \<open>AsrModel\<close>.\<close>

record asr_model =
  am_name :: string
  am_description :: string
  am_attribution :: attribution
  am_installed :: bool
  am_languages :: "string list"
  am_version :: string

record asr_program =
  ap_name :: string
  ap_description :: string
  ap_attribution :: attribution
  ap_installed :: bool
  ap_version :: string
  ap_models :: "asr_model list"

record info =
  asr :: "asr_program list"

text \<open>
  The events of the protocol, in and out. \<open>Other\<close> is an event of any other type;
  \<open>InfoEvent\<close> is what \<open>Info.event()\<close> builds from a descriptor.
\<close>

datatype event =
    AudioChunk int int int string
  | AudioStop
  | Transcribe "string option"
  | Describe
  | Transcript string
  | InfoEvent info
  | Other string

text \<open>
  The parsed command line, an \<open>argparse.Namespace\<close>. The handler asks whether it has
  \<open>beam_size\<close>: \<open>None\<close> is a namespace without that attribute.
\<close>

record cli_args =
  args_backend :: string
  args_model :: string
  args_data_dir :: "string list"
  args_download_dir :: "string option"
  args_device :: string
  args_language :: "string option"
  args_compute_type :: string
  args_beam_size :: "int option"
  args_initial_prompt :: "string option"

text \<open>
  The fields of the handler object. The lock is shared by the sessions and serialises the
  calls of the engine; one session is modelled, which always gets it.
\<close>

record WhisperEventHandler =
  cli_args :: cli_args
  wyoming_info_event :: event
  backend :: WhisperBackend
  initial_prompt :: "string option"
  language :: "string option"
  wav_path :: string
  wav_file :: "audio_file option"

text \<open>\<open>__init__\<close>; \<open>wav_dir\<close> is the name of the fresh temporary directory.\<close>

definition WhisperEventHandler_init ::
  "info \<Rightarrow> cli_args \<Rightarrow> WhisperBackend \<Rightarrow> string option \<Rightarrow> string \<Rightarrow> WhisperEventHandler" where
  "WhisperEventHandler_init wyoming_info args be prompt wav_dir =
     \<lparr>cli_args = args,
      wyoming_info_event = InfoEvent wyoming_info,
      backend = be,
      initial_prompt = prompt,
      language = args_language args,
      wav_path = wav_dir @ ''/speech.wav'',
      wav_file = None\<rparr>"

text \<open>The dictionary \<open>transcription_kwargs\<close>.\<close>

definition transcription_kwargs :: "WhisperEventHandler \<Rightarrow> kwargs" where
  "transcription_kwargs self =
     \<lparr>kw_language = language self,
      kw_initial_prompt = initial_prompt self,
      kw_beam_size = args_beam_size (cli_args self)\<rparr>"

text \<open>The loop that collects the segment texts, with \<open>segment_texts\<close> as accumulator.\<close>

fun collect :: "pyval gen \<Rightarrow> string list \<Rightarrow> exn + string list" where
  "collect Done segment_texts = Inr segment_texts"
| "collect (Raise e) segment_texts = Inl e"
| "collect (Yield segment g) segment_texts =
     (case py_getattr segment ''text'' of
        Inl e \<Rightarrow> collect g segment_texts
      | Inr t \<Rightarrow>
          if truthy t then
            (case py_strip t of
               Inl e \<Rightarrow> Inl e
             | Inr segment_text \<Rightarrow>
                 if segment_text \<noteq> [] then collect g (segment_texts @ [segment_text])
                 else collect g segment_texts)
          else collect g segment_texts)"

text \<open>The \<open>try\<close> block under the lock and its \<open>except Exception\<close> clause.\<close>

definition transcript_text ::
  "host \<Rightarrow> WhisperBackend \<Rightarrow> audio_file \<Rightarrow> kwargs \<Rightarrow> string" where
  "transcript_text h be audio_path kw =
     (case transcribe h be audio_path kw of
        Inl e \<Rightarrow> []
      | Inr segments \<Rightarrow>
          (case collect segments [] of
             Inl e \<Rightarrow> []
           | Inr segment_texts \<Rightarrow> join '' '' segment_texts))"

text \<open>An unsigned field of \<open>w\<close> bits of \<open>struct.pack\<close>.\<close>

definition fits :: "nat \<Rightarrow> int \<Rightarrow> bool" where
  "fits w v = (0 \<le> v \<and> v < 2 ^ w)"

text \<open>
  \<open>wave.open(path, "wb")\<close> followed by \<open>setframerate\<close>, \<open>setsampwidth\<close> and
  \<open>setnchannels\<close>, each of which checks its argument.
\<close>

definition wave_open :: "string \<Rightarrow> int \<Rightarrow> int \<Rightarrow> int \<Rightarrow> exn + audio_file" where
  "wave_open path rate width channels =
     (if rate \<le> 0 then Inl (WaveError ''bad frame rate'')
      else if width < 1 \<or> 4 < width then Inl (WaveError ''bad sample width'')
      else if channels < 1 then Inl (WaveError ''bad # of channels'')
      else Inr \<lparr>af_path = path, af_framerate = rate, af_sampwidth = width,
                af_nchannels = channels, af_frames = []\<rparr>)"

text \<open>
  The first \<open>writeframes\<close> on a new file. It writes the header, whose fields are packed as
  unsigned numbers of 16 and 32 bits with the data length rounded down to whole frames,
  then the data, and patches the two lengths of the header when the data is not a whole
  number of frames.
\<close>

definition write_first :: "audio_file \<Rightarrow> string \<Rightarrow> exn + audio_file" where
  "write_first f data =
     (let framesize = af_nchannels f * af_sampwidth f;
          datalength = (int (length data) div framesize) * framesize;
          datawritten = int (length data)
      in if fits 32 (36 + datalength) \<and> fits 16 (af_nchannels f) \<and> fits 32 (af_framerate f)
            \<and> fits 32 (af_nchannels f * af_framerate f * af_sampwidth f)
            \<and> fits 16 framesize \<and> fits 16 (af_sampwidth f * 8)
         then (if datalength = datawritten then Inr (f\<lparr>af_frames := data\<rparr>)
               else if fits 32 (36 + datawritten) then Inr (f\<lparr>af_frames := data\<rparr>)
               else Inl StructError)
         else Inl StructError)"

text \<open>
  A later \<open>writeframes\<close>: the header is there. Data that is not empty makes the length of
  the header differ from what is written, and the header is patched.
\<close>

definition write_more :: "audio_file \<Rightarrow> string \<Rightarrow> exn + audio_file" where
  "write_more f data =
     (if data = [] then Inr f
      else if fits 32 (36 + int (length (af_frames f @ data)))
      then Inr (f\<lparr>af_frames := af_frames f @ data\<rparr>)
      else Inl StructError)"

text \<open>
  \<open>handle_event\<close>: the new fields of the handler, the events written to the client, and
  the boolean it returns; or the exception that leaves it. The calls of the \<open>wave\<close> module
  are outside any \<open>try\<close>, so its exceptions leave \<open>handle_event\<close>. The host is taken to
  be little-endian (the frames are written as they come); errors of the file system and
  of the connection are not modelled.
\<close>

fun handle_event ::
  "host \<Rightarrow> WhisperEventHandler \<Rightarrow> event \<Rightarrow> exn + (WhisperEventHandler \<times> event list \<times> bool)" where
  "handle_event h self (AudioChunk rate width channels audio) =
     (case (case wav_file self of
              None \<Rightarrow>
                (case wave_open (wav_path self) rate width channels of
                   Inl e \<Rightarrow> Inl e
                 | Inr f \<Rightarrow> write_first f audio)
            | Some f \<Rightarrow> write_more f audio) of
        Inl e \<Rightarrow> Inl e
      | Inr f \<Rightarrow> Inr (self\<lparr>wav_file := Some f\<rparr>, [], True))"
| "handle_event h self AudioStop =
     (case wav_file self of
        None \<Rightarrow> Inl AssertionError
      | Some f \<Rightarrow>
          Inr (self\<lparr>wav_file := None, language := args_language (cli_args self)\<rparr>,
               [Transcript (transcript_text h (backend self) f (transcription_kwargs self))],
               False))"
| "handle_event h self (Transcribe lang) =
     Inr (if given lang then self\<lparr>language := lang\<rparr> else self, [], True)"
| "handle_event h self Describe = Inr (self, [wyoming_info_event self], True)"
| "handle_event h self ev = Inr (self, [], True)"

text \<open>
  The handler's base class, \<open>AsyncEventHandler\<close> of the \<open>wyoming\<close> package, reads the
  client's events one by one and calls \<open>handle_event\<close> on each; it ends the session when
  the client has no more events, when \<open>handle_event\<close> returns \<open>False\<close>, or when it raises.
\<close>

datatype session_end = Disconnected | Closed | Crashed exn

fun run ::
  "host \<Rightarrow> WhisperEventHandler \<Rightarrow> event list \<Rightarrow> WhisperEventHandler \<times> event list \<times> session_end" where
  "run h self [] = (self, [], Disconnected)"
| "run h self (ev # evs) =
     (case handle_event h self ev of
        Inl e \<Rightarrow> (self, [], Crashed e)
      | Inr (self', out, keep_open) \<Rightarrow>
          if keep_open then
            (case run h self' evs of (self'', out', r) \<Rightarrow> (self'', out @ out', r))
          else (self', out, Closed))"

section \<open>Start-up (\_\_main\_\_.py)\<close>

definition is_arm :: "host \<Rightarrow> bool" where
  "is_arm h =
     (let machine = lower (platform_machine h)
      in contains ''arm'' machine \<or> contains ''aarch'' machine)"

text \<open>Automatic model selection: the new value of \<open>args.model\<close>.\<close>

definition auto_model :: "host \<Rightarrow> cli_args \<Rightarrow> cli_args" where
  "auto_model h args =
     (if args_model args = ''auto'' then
        (if args_backend args = ''mlx-whisper''
         then args\<lparr>args_model := ''mlx-community/whisper-tiny-mlx''\<rparr>
         else args\<lparr>args_model := (if is_arm h then ''tiny-int8'' else ''base-int8'')\<rparr>)
      else args)"

text \<open>Beam size: a value that is not positive is replaced.\<close>

definition auto_beam_size :: "host \<Rightarrow> cli_args \<Rightarrow> exn + cli_args" where
  "auto_beam_size h args =
     (case args_beam_size args of
        None \<Rightarrow> Inl AttributeError
      | Some n \<Rightarrow>
          if n \<le> 0 then Inr (args\<lparr>args_beam_size := Some (if is_arm h then 1 else 5)\<rparr>)
          else Inr args)"

text \<open>
  \<open>re.match(r"^(tiny|base|small|medium)[.-]int8$", model)\<close>: the size when it matches.
  \<open>$\<close> also matches before a final newline.
\<close>

definition int8_match :: "string \<Rightarrow> string option" where
  "int8_match m =
     find (\<lambda>sz. m \<in> set [sz @ ''.int8'', sz @ ''-int8'',
                           sz @ ''.int8'' @ [CHR 0x0A], sz @ ''-int8'' @ [CHR 0x0A]])
       [''tiny'', ''base'', ''small'', ''medium'']"

text \<open>The name shown in the descriptor and the new value of \<open>args.model\<close>.\<close>

definition resolve_model_name :: "cli_args \<Rightarrow> string \<times> cli_args" where
  "resolve_model_name args =
     (if args_backend args = ''faster-whisper'' then
        (case int8_match (args_model args) of
           Some model_size \<Rightarrow>
             (model_size @ ''-int8'',
              args\<lparr>args_model := ''rhasspy/faster-whisper-'' @ model_size @ ''-int8''\<rparr>)
         | None \<Rightarrow> (args_model args, args))
      else (args_model args, args))"

text \<open>The descriptor; \<open>version\<close> is \<open>__version__\<close> of the package.\<close>

definition wyoming_info ::
  "host \<Rightarrow> engines \<Rightarrow> string \<Rightarrow> cli_args \<Rightarrow> string \<Rightarrow> WhisperBackend \<Rightarrow> info" where
  "wyoming_info h en version args model_name whisper_backend =
     \<lparr>asr =
        [\<lparr>ap_name = args_backend args,
          ap_description = ''Whisper transcription using '' @ args_backend args,
          ap_attribution = get_attribution whisper_backend,
          ap_installed = True,
          ap_version = version,
          ap_models =
            [\<lparr>am_name = model_name,
              am_description = model_name,
              am_attribution = get_attribution whisper_backend,
              am_installed = True,
              am_languages = get_supported_languages whisper_backend,
              am_version = get_version h en whisper_backend\<rparr>]\<rparr>]\<rparr>"

text \<open>The download directory defaults to the first data directory.\<close>

definition default_download_dir :: "cli_args \<Rightarrow> exn + cli_args" where
  "default_download_dir args =
     (if \<not> given (args_download_dir args) then
        (case args_data_dir args of
           [] \<Rightarrow> Inl IndexError
         | d # ds \<Rightarrow> Inr (args\<lparr>args_download_dir := Some d\<rparr>))
      else Inr args)"

text \<open>The back end \<open>auto\<close> is replaced by the detected one.\<close>

definition auto_backend :: "host \<Rightarrow> cli_args \<Rightarrow> exn + cli_args" where
  "auto_backend h args =
     (if args_backend args = ''auto'' then
        (case detect_optimal_backend h of
           Inl e \<Rightarrow> Inl e
         | Inr b \<Rightarrow> Inr (args\<lparr>args_backend := b\<rparr>))
      else Inr args)"

text \<open>The language \<open>auto\<close> is replaced by \<open>None\<close>.\<close>

definition auto_language :: "cli_args \<Rightarrow> cli_args" where
  "auto_language args =
     (if args_language args = Some ''auto'' then args\<lparr>args_language := None\<rparr> else args)"

text \<open>The dictionary \<open>backend_kwargs\<close>.\<close>

definition main_backend_kwargs :: "cli_args \<Rightarrow> backend_kwargs" where
  "main_backend_kwargs args =
     \<lparr>bk_download_dir = args_download_dir args,
      bk_device = Some (args_device args),
      bk_compute_type = Some (args_compute_type args),
      bk_api_key = None\<rparr>"

text \<open>
  How \<open>main\<close> ends: an exception leaves it, or the back end could not be loaded (logged,
  and \<open>main\<close> returns), or the server runs, making one handler for each connection from the
  descriptor, the arguments, the back end and the initial prompt.
\<close>

datatype main_result =
    Raised exn
  | Load_failed exn
  | Serving info cli_args WhisperBackend "string option"

text \<open>\<open>main\<close>, from the parsed arguments on; each step gives the next value of \<open>args\<close>.\<close>

definition main :: "host \<Rightarrow> engines \<Rightarrow> string \<Rightarrow> cli_args \<Rightarrow> main_result" where
  "main h en version args0 =
     (case default_download_dir args0 of
        Inl e \<Rightarrow> Raised e
      | Inr args1 \<Rightarrow>
          (case auto_backend h args1 of
             Inl e \<Rightarrow> Raised e
           | Inr args2 \<Rightarrow>
               (case auto_beam_size h (auto_model h args2) of
                  Inl e \<Rightarrow> Raised e
                | Inr args3 \<Rightarrow>
                    (case resolve_model_name args3 of
                       (model_name, args4) \<Rightarrow>
                         (case create_backend h en (args_backend (auto_language args4))
                                 (args_model (auto_language args4))
                                 (main_backend_kwargs (auto_language args4)) of
                            Inl e \<Rightarrow> Load_failed e
                          | Inr whisper_backend \<Rightarrow>
                              Serving
                                (wyoming_info h en version (auto_language args4) model_name
                                   whisper_backend)
                                (auto_language args4) whisper_backend
                                (args_initial_prompt (auto_language args4)))))))"

section \<open>Words of the specification\<close>

text \<open>The Apple-silicon platform class: the test \<open>detect_optimal_backend\<close> makes.\<close>

definition apple_silicon :: "host \<Rightarrow> bool" where
  "apple_silicon h = (lower (platform_system h) = ''darwin'' \<and> is_arm h)"

text \<open>The text of a segment object, when it has one and it is a string.\<close>

definition segment_text :: "pyval \<Rightarrow> string option" where
  "segment_text seg = (case py_getattr seg ''text'' of Inr (PStr s) \<Rightarrow> Some s | _ \<Rightarrow> None)"

text \<open>
  TranscriptResult, in the words of the specification: the non-empty trimmed segment texts
  joined by one space, in segment order.
\<close>

definition TranscriptResult :: "pyval list \<Rightarrow> string" where
  "TranscriptResult segs =
     join '' '' (filter (\<lambda>t. t \<noteq> []) (map strip (List.map_filter segment_text segs)))"

text \<open>
  A segment the handler's loop can read: its text, if it has the attribute, is a string or
  a false value such as \<open>None\<close>. On any other text \<open>strip\<close> raises \<open>AttributeError\<close>.
\<close>

definition readable :: "pyval \<Rightarrow> bool" where
  "readable seg =
     (case py_getattr seg ''text'' of
        Inr (PStr s) \<Rightarrow> True
      | Inr v \<Rightarrow> \<not> truthy v
      | Inl e \<Rightarrow> True)"

text \<open>A segment whose trimmed text is not empty.\<close>

definition nonblank :: "pyval \<Rightarrow> bool" where
  "nonblank seg = (case segment_text seg of Some t \<Rightarrow> strip t \<noteq> [] | None \<Rightarrow> False)"

text \<open>A dictionary or response without a segment breakdown: the key is absent or false.\<close>

definition lacks :: "(string \<times> pyval) list \<Rightarrow> string \<Rightarrow> bool" where
  "lacks d key = (case map_of d key of None \<Rightarrow> True | Some v \<Rightarrow> \<not> truthy v)"

text \<open>
  A first chunk the \<open>wave\<close> module accepts: the rate is positive, the sample width is 1
  to 4 bytes, there is a channel, and every field of the header fits its width.
\<close>

definition chunk_ok :: "int \<Rightarrow> int \<Rightarrow> int \<Rightarrow> string \<Rightarrow> bool" where
  "chunk_ok rate width channels audio =
     (0 < rate \<and> 1 \<le> width \<and> width \<le> 4 \<and> 1 \<le> channels
      \<and> fits 16 channels \<and> fits 32 rate \<and> fits 32 (channels * rate * width)
      \<and> fits 16 (channels * width) \<and> fits 32 (36 + int (length audio)))"

text \<open>A reply the client may see from a session whose descriptor event is \<open>d\<close>.\<close>

fun reply_of :: "event \<Rightarrow> event \<Rightarrow> bool" where
  "reply_of d (Transcript t) = True"
| "reply_of d e = (e = d)"

section \<open>Example hosts, engines and sessions\<close>

definition host_on :: "string \<Rightarrow> string \<Rightarrow> string list \<Rightarrow> host" where
  "host_on system machine mods =
     \<lparr>platform_machine = machine, platform_system = system, modules = mods,
      OPENAI_API_KEY = None, open_rb = (\<lambda>p. None)\<rparr>"

definition args_for :: "string \<Rightarrow> string \<Rightarrow> cli_args" where
  "args_for b m =
     \<lparr>args_backend = b, args_model = m, args_data_dir = [''/data''],
      args_download_dir = None, args_device = ''cpu'', args_language = Some ''en'',
      args_compute_type = ''default'', args_beam_size = Some 5, args_initial_prompt = None\<rparr>"

definition speech :: audio_file where
  "speech =
     \<lparr>af_path = ''/tmp/w/speech.wav'', af_framerate = 16000, af_sampwidth = 2,
      af_nchannels = 1, af_frames = ''abcd''\<rparr>"

text \<open>An OpenAI back end whose service answers every request with \<open>r\<close>.\<close>

definition openai_answering :: "exn + pyval \<Rightarrow> OpenAIWhisperBackend" where
  "openai_answering r =
     \<lparr>client = \<lparr>create = (\<lambda>req. r)\<rparr>, oa_model_name = ''whisper-1''\<rparr>"

text \<open>An MLX back end whose engine answers every call with \<open>r\<close>.\<close>

definition mlx_answering :: "exn + pyval \<Rightarrow> MLXWhisperBackend" where
  "mlx_answering r =
     \<lparr>mlx_whisper = \<lparr>mlx_transcribe = (\<lambda>f opts. r), mlx_version = None\<rparr>,
      model_path = ''mlx-community/whisper-tiny-mlx''\<rparr>"

text \<open>A faster-whisper back end whose model answers every call with \<open>r\<close>.\<close>

definition faster_answering :: "exn + (pyval gen \<times> pyval) \<Rightarrow> FasterWhisperBackend" where
  "faster_answering r =
     \<lparr>fwb_model = \<lparr>fw_transcribe = (\<lambda>f beam lang prompt. r)\<rparr>,
      fwb_faster_whisper =
        \<lparr>WhisperModel = (\<lambda>name dir dev ct. Inr \<lparr>fw_transcribe = (\<lambda>f beam lang prompt. r)\<rparr>),
         fw_version = ''1.0'', fw_LANGUAGE_CODES = [''en'']\<rparr>\<rparr>"

text \<open>A faster-whisper back end whose model answers with the language it is asked for.\<close>

definition faster_echoing_language :: FasterWhisperBackend where
  "faster_echoing_language =
     \<lparr>fwb_model =
        \<lparr>fw_transcribe = (\<lambda>f beam lang prompt.
           Inr (Yield (PObj [(''text'', PStr (get_default lang ''none''))]) Done, PNone))\<rparr>,
      fwb_faster_whisper = fwb_faster_whisper (faster_answering (Inr (Done, PNone)))\<rparr>"

text \<open>The three packages as a process finds them installed.\<close>

definition installed :: engines where
  "installed =
     \<lparr>faster_whisper_module = fwb_faster_whisper (faster_answering (Inr (Done, PNone))),
      mlx_whisper_module = mlx_whisper (mlx_answering (Inr PNone)),
      openai_package =
        \<lparr>OpenAI_client = (\<lambda>k. Inr (client (openai_answering (Inr PNone)))),
         openai_version = ''1.0''\<rparr>\<rparr>"

text \<open>The segment objects of an engine with the given texts.\<close>

definition texts :: "string list \<Rightarrow> pyval list" where
  "texts ts = map (\<lambda>t. PObj [(''text'', PStr t)]) ts"

text \<open>A session on the back end \<open>be\<close>, as a new connection gets it.\<close>

definition session :: "WhisperBackend \<Rightarrow> WhisperEventHandler" where
  "session be =
     WhisperEventHandler_init
       (wyoming_info (host_on ''Linux'' ''x86_64'' []) installed ''1.0''
          (args_for ''faster-whisper'' ''base-int8'') ''base-int8'' be)
       (args_for ''faster-whisper'' ''base-int8'') be None ''/tmp/w''"

text \<open>The keyword arguments of a call with no language and no prompt, and those of \<open>main\<close>.\<close>

definition plain :: kwargs where
  "plain = \<lparr>kw_language = None, kw_initial_prompt = None, kw_beam_size = Some 5\<rparr>"

definition main_kwargs :: backend_kwargs where
  "main_kwargs =
     \<lparr>bk_download_dir = Some ''/data'', bk_device = Some ''cpu'',
      bk_compute_type = Some ''default'', bk_api_key = None\<rparr>"

section \<open>Lemmas\<close>

lemma lower_examples:
  "lower ''Darwin'' = ''darwin''" "lower ''Linux'' = ''linux''"
  "lower ''arm64'' = ''arm64''" "lower ''x86_64'' = ''x86_64''" "lower ''aarch64'' = ''aarch64''"
  by code_simp+

lemma strip_Nil: "strip [] = []"
  by (simp add: strip_def)

lemma strip_ends:
  assumes "strip s \<noteq> []"
  shows "\<not> isspace (hd (strip s))" and "\<not> isspace (last (strip s))"
proof -
  define u where "u = dropWhile isspace s"
  define w where "w = dropWhile isspace (rev u)"
  have s: "strip s = rev w"
    by (simp add: strip_def u_def w_def)
  with assms have w: "w \<noteq> []" by simp
  then have hw: "\<not> isspace (hd w)"
    unfolding w_def by (rule hd_dropWhile)
  have "rev u = takeWhile isspace (rev u) @ w"
    by (simp add: w_def)
  then have lw: "last w = last (rev u)"
    using w by (metis last_appendR)
  from w have u: "u \<noteq> []"
    by (auto simp: w_def)
  then have "\<not> isspace (hd u)"
    unfolding u_def by (rule hd_dropWhile)
  with lw u have "\<not> isspace (last w)"
    by (simp add: last_rev)
  then show "\<not> isspace (hd (strip s))"
    using w by (simp add: s hd_rev)
  show "\<not> isspace (last (strip s))"
    using w hw by (simp add: s last_rev)
qed

lemma strip_strip: "strip (strip s) = strip s"
proof (cases "strip s = []")
  case True
  then show ?thesis by (simp add: strip_Nil)
next
  case False
  from strip_ends(1) [OF False] have a: "dropWhile isspace (strip s) = strip s"
    by (simp add: dropWhile_eq_self_iff)
  from strip_ends(2) [OF False] False have b: "dropWhile isspace (rev (strip s)) = rev (strip s)"
    by (simp add: dropWhile_eq_self_iff hd_rev)
  show ?thesis
    unfolding strip_def [of "strip s"] a b by simp
qed

lemma collect_gen_of_list:
  "list_all readable segs \<Longrightarrow>
   collect (gen_of_list segs) acc =
     Inr (acc @ filter (\<lambda>t. t \<noteq> []) (map strip (List.map_filter segment_text segs)))"
proof (induction segs arbitrary: acc)
  case Nil
  then show ?case by (simp add: List.map_filter_simps)
next
  case (Cons seg segs)
  then have r: "readable seg" and rs: "list_all readable segs" by simp_all
  show ?case
  proof (cases "py_getattr seg ''text''")
    case (Inl e)
    then show ?thesis
      using Cons.IH [OF rs] by (simp add: List.map_filter_simps segment_text_def)
  next
    case (Inr t)
    then show ?thesis
      using Cons.IH [OF rs] r
      by (cases t) (simp_all add: List.map_filter_simps segment_text_def readable_def strip_Nil)
  qed
qed

lemma raises_collect: "raises g = Some e \<Longrightarrow> isl (collect g acc)"
proof (induction g arbitrary: acc)
  case (Yield seg g)
  then show ?case
    by (auto split: sum.splits)
qed simp_all

lemma transcript_text_call_raises:
  "transcribe h be f kw = Inl e \<Longrightarrow> transcript_text h be f kw = []"
  by (simp add: transcript_text_def)

lemma transcript_text_iter_raises:
  "transcribe h be f kw = Inr g \<Longrightarrow> raises g = Some e \<Longrightarrow> transcript_text h be f kw = []"
  using raises_collect [of g e "[]"]
  by (auto simp: transcript_text_def split: sum.splits)

lemma transcript_text_readable:
  "transcribe h be f kw = Inr (gen_of_list segs) \<Longrightarrow> list_all readable segs \<Longrightarrow>
   transcript_text h be f kw = TranscriptResult segs"
  by (simp add: transcript_text_def TranscriptResult_def collect_gen_of_list)

lemma raises_catch_yield: "raises (catch_gen g (\<lambda>e. Yield x Done)) = None"
  by (induction g) simp_all

lemma yielded_catch_yield:
  "yielded (catch_gen g (\<lambda>e. Yield x Done)) = yielded g @ (if raises g = None then [] else [x])"
  by (induction g) simp_all

lemma catch_reraise: "catch_gen g Raise = g"
  by (induction g) simp_all

lemma handle_event_info:
  "handle_event h self ev = Inr (self', out, k) \<Longrightarrow>
   wyoming_info_event self' = wyoming_info_event self"
  by (cases ev) (auto split: option.splits sum.splits if_splits)

lemma whole_frames:
  assumes "0 < (k::int)" and "0 \<le> n"
  shows "0 \<le> n div k * k \<and> n div k * k \<le> n"
proof -
  have e: "n div k * k = n - n mod k"
    by (simp add: minus_mod_eq_div_mult)
  have m: "0 \<le> n mod k"
    using assms(1) by simp
  have "0 \<le> n div k"
    using assms by (simp add: pos_imp_zdiv_nonneg_iff)
  then have "0 \<le> n div k * k"
    using assms(1) by simp
  with e m show ?thesis by simp
qed

lemma first_chunk_ok:
  assumes "chunk_ok rate width channels audio"
  shows "(case wave_open path rate width channels of
            Inl e \<Rightarrow> Inl e | Inr f \<Rightarrow> write_first f audio)
         = Inr \<lparr>af_path = path, af_framerate = rate, af_sampwidth = width,
                 af_nchannels = channels, af_frames = audio\<rparr>"
proof -
  from assms have k: "0 < channels * width"
    by (simp add: chunk_ok_def)
  from whole_frames [OF k, of "int (length audio)"]
  have d: "0 \<le> int (length audio) div (channels * width) * (channels * width)"
    "int (length audio) div (channels * width) * (channels * width) \<le> int (length audio)"
    by simp_all
  from assms d show ?thesis
    by (simp add: wave_open_def write_first_def chunk_ok_def fits_def Let_def)
qed

lemma first_chunk_bad:
  assumes "\<not> chunk_ok rate width channels audio"
  shows "isl (case wave_open path rate width channels of
            Inl e \<Rightarrow> Inl e | Inr f \<Rightarrow> write_first f audio)"
proof (cases "0 < rate \<and> 1 \<le> width \<and> width \<le> 4 \<and> 1 \<le> channels")
  case False
  then show ?thesis
    by (auto simp: wave_open_def)
next
  case True
  then have p: "0 \<le> channels * rate * width" "0 \<le> channels * width"
    by simp_all
  from True have o: "wave_open path rate width channels
      = Inr \<lparr>af_path = path, af_framerate = rate, af_sampwidth = width,
               af_nchannels = channels, af_frames = []\<rparr>"
    by (simp add: wave_open_def)
  from True assms have "\<not> (fits 16 channels \<and> fits 32 rate \<and> fits 32 (channels * rate * width)
      \<and> fits 16 (channels * width) \<and> fits 32 (36 + int (length audio)))"
    by (simp add: chunk_ok_def)
  then show ?thesis
    unfolding o by (auto simp: write_first_def Let_def fits_def)
qed

lemma first_chunk_accepted:
  "chunk_ok rate width channels audio \<Longrightarrow>
   handle_event h (self\<lparr>wav_file := None\<rparr>) (AudioChunk rate width channels audio)
     = Inr (self\<lparr>wav_file := Some \<lparr>af_path = wav_path self, af_framerate = rate,
                                      af_sampwidth = width, af_nchannels = channels,
                                      af_frames = audio\<rparr>\<rparr>, [], True)"
  by (simp add: first_chunk_ok)

lemma first_chunk_refused:
  "\<not> chunk_ok rate width channels audio \<Longrightarrow>
   isl (handle_event h (self\<lparr>wav_file := None\<rparr>) (AudioChunk rate width channels audio))"
  using first_chunk_bad [of rate width channels audio "wav_path self"]
  by (auto split: sum.splits)

lemma zero_chunk_crashes:
  "run h (self\<lparr>wav_file := None\<rparr>) (AudioChunk 0 0 0 audio # evs)
     = (self\<lparr>wav_file := None\<rparr>, [], Crashed (WaveError ''bad frame rate''))"
  by (simp add: wave_open_def)

lemma reply_of_self: "reply_of d d"
  by (cases d) simp_all

lemma handle_event_replies:
  "handle_event h self ev = Inr (self', out, k) \<Longrightarrow>
   list_all (reply_of (wyoming_info_event self)) out"
  by (cases ev) (auto split: option.splits sum.splits if_splits simp: reply_of_self)

lemma run_replies:
  "run h self evs = (self', out, r) \<Longrightarrow>
   wyoming_info_event self' = wyoming_info_event self
   \<and> list_all (reply_of (wyoming_info_event self)) out"
proof (induction evs arbitrary: self self' out r)
  case Nil
  then show ?case by simp
next
  case (Cons ev evs)
  show ?case
  proof (cases "handle_event h self ev")
    case (Inl e)
    with Cons.prems show ?thesis by simp
  next
    case (Inr res)
    obtain s1 out1 k where res: "res = (s1, out1, k)"
      by (cases res) auto
    note step = Inr [unfolded res]
    show ?thesis
    proof (cases k)
      case False
      with Cons.prems step show ?thesis
        using handle_event_info [OF step] handle_event_replies [OF step] by simp
    next
      case True
      obtain s2 out2 r2 where rest: "run h s1 evs = (s2, out2, r2)"
        by (cases "run h s1 evs") auto
      from Cons.prems step True rest
      have eq: "self' = s2" "out = out1 @ out2" by simp_all
      from Cons.IH [OF rest] handle_event_info [OF step] handle_event_replies [OF step]
      show ?thesis by (simp add: eq)
    qed
  qed
qed

lemma int8_match_defaults:
  "int8_match ''tiny-int8'' = Some ''tiny''" "int8_match ''base-int8'' = Some ''base''"
  "int8_match ''mlx-community/whisper-tiny-mlx'' = None"
  by (simp_all add: int8_match_def)

lemma default_download_dir_frame:
  "default_download_dir a = Inr a' \<Longrightarrow>
   args_model a' = args_model a \<and> args_backend a' = args_backend a"
  by (auto simp: default_download_dir_def split: if_splits list.splits)

lemma auto_backend_frame: "auto_backend h a = Inr a' \<Longrightarrow> args_model a' = args_model a"
  by (auto simp: auto_backend_def split: if_splits sum.splits)

lemma auto_beam_size_frame:
  "auto_beam_size h a = Inr a' \<Longrightarrow>
   args_model a' = args_model a \<and> args_backend a' = args_backend a"
  by (auto simp: auto_beam_size_def split: option.splits if_splits)

lemma auto_language_frame:
  "args_model (auto_language a) = args_model a" "args_backend (auto_language a) = args_backend a"
  by (simp_all add: auto_language_def)

lemma resolve_model_name_cases:
  "resolve_model_name a = (model_name, a') \<Longrightarrow>
   args_backend a' = args_backend a
   \<and> (args_model a' = model_name \<or> args_model a' = ''rhasspy/faster-whisper-'' @ model_name)"
  by (auto simp: resolve_model_name_def split: if_splits option.splits)

lemma resolve_model_name_auto:
  "args_model a = ''auto'' \<Longrightarrow>
   fst (resolve_model_name (auto_model h a)) = args_model (auto_model h a)"
  by (simp add: resolve_model_name_def auto_model_def int8_match_defaults)

lemma main_steps:
  assumes "main h en version args0 = Serving wi args be p"
  obtains args1 args2 args3 model_name args4 where
    "default_download_dir args0 = Inr args1"
    "auto_backend h args1 = Inr args2"
    "auto_beam_size h (auto_model h args2) = Inr args3"
    "resolve_model_name args3 = (model_name, args4)"
    "args = auto_language args4"
    "create_backend h en (args_backend args) (args_model args) (main_backend_kwargs args) = Inr be"
    "wi = wyoming_info h en version args model_name be"
  using assms unfolding main_def
  by (auto split: sum.splits prod.splits)

lemma main_Serving:
  assumes "main h en version args0 = Serving wi args be p"
  shows "\<exists>model_name.
     wi = wyoming_info h en version args model_name be
     \<and> (args_model args = model_name
        \<or> args_model args = ''rhasspy/faster-whisper-'' @ model_name)
     \<and> create_backend h en (args_backend args) (args_model args) (main_backend_kwargs args)
         = Inr be"
proof -
  from assms obtain args3 model_name args4 where
    r: "resolve_model_name args3 = (model_name, args4)" and
    a: "args = auto_language args4" and
    c: "create_backend h en (args_backend args) (args_model args) (main_backend_kwargs args) = Inr be"
      and
    w: "wi = wyoming_info h en version args model_name be"
    by (rule main_steps)
  from resolve_model_name_cases [OF r] a
  have "args_model args = model_name \<or> args_model args = ''rhasspy/faster-whisper-'' @ model_name"
    by (simp add: auto_language_frame)
  with c w show ?thesis by blast
qed

lemma main_auto_model:
  assumes "main h en version args0 = Serving wi args be p" and "args_model args0 = ''auto''"
  shows "map am_name (concat (map ap_models (asr wi)))
     = [if args_backend args = ''mlx-whisper'' then ''mlx-community/whisper-tiny-mlx''
        else if is_arm h then ''tiny-int8'' else ''base-int8'']"
proof -
  from assms(1) obtain args1 args2 args3 model_name args4 where
    d: "default_download_dir args0 = Inr args1" and
    b: "auto_backend h args1 = Inr args2" and
    s: "auto_beam_size h (auto_model h args2) = Inr args3" and
    r: "resolve_model_name args3 = (model_name, args4)" and
    a: "args = auto_language args4" and
    w: "wi = wyoming_info h en version args model_name be"
    by (rule main_steps)
  from d b assms(2) have m2: "args_model args2 = ''auto''"
    by (simp add: default_download_dir_frame auto_backend_frame)
  from s have s3: "args_model args3 = args_model (auto_model h args2)"
    "args_backend args3 = args_backend (auto_model h args2)"
    by (simp_all add: auto_beam_size_frame)
  have b2: "args_backend (auto_model h args2) = args_backend args2"
    by (simp add: auto_model_def)
  from resolve_model_name_cases [OF r] a s3 b2 have bk: "args_backend args = args_backend args2"
    by (simp add: auto_language_frame)
  have "resolve_model_name args3
          = (if args_backend args3 = ''faster-whisper'' then
               (case int8_match (args_model args3) of
                  Some model_size \<Rightarrow>
                    (model_size @ ''-int8'',
                     args3\<lparr>args_model := ''rhasspy/faster-whisper-'' @ model_size @ ''-int8''\<rparr>)
                | None \<Rightarrow> (args_model args3, args3))
             else (args_model args3, args3))"
    by (simp add: resolve_model_name_def)
  with r m2 s3 b2 have "model_name
      = (if args_backend args2 = ''mlx-whisper'' then ''mlx-community/whisper-tiny-mlx''
         else if is_arm h then ''tiny-int8'' else ''base-int8'')"
    by (auto simp: auto_model_def int8_match_defaults split: if_splits)
  with w bk show ?thesis
    by (simp add: wyoming_info_def)
qed

lemma nonblank_Segment3: "strip s \<noteq> [] \<Longrightarrow> nonblank (Segment3 (strip s) a b)"
  by (simp add: nonblank_def segment_text_def Segment3_def strip_strip)

lemma py_strip_Inr: "py_strip t = Inr txt \<Longrightarrow> \<exists>s. t = PStr s \<and> txt = strip s"
  by (cases t) simp_all

lemma mlx_segments_nonblank: "list_all nonblank (yielded (mlx_segments items))"
proof (induction items)
  case Nil
  then show ?case by simp
next
  case (Cons segment rest)
  then show ?case
    by (auto split: sum.splits dest!: py_strip_Inr simp: nonblank_Segment3)
qed

lemma mlx_full_text_nonblank: "list_all nonblank (yielded (mlx_full_text d))"
  by (auto simp: mlx_full_text_def split: option.splits sum.splits dest!: py_strip_Inr
      simp: nonblank_Segment3)

lemma mlx_try_nonblank: "list_all nonblank (yielded (mlx_try b f kw))"
  by (auto simp: mlx_try_def mlx_segments_nonblank mlx_full_text_nonblank
      split: sum.splits pyval.splits option.splits)

lemma openai_segments_texts:
  "list_all2 (\<lambda>s t. py_getattr s ''text'' = Inr t) items ts \<Longrightarrow>
   openai_segments items = gen_of_list (map Segment1 ts)"
  by (induction items ts rule: list_all2_induct) simp_all

section \<open>Back-end detection and model selection\<close>

text \<open>
  Claim C5. Back-end detection is first-match: it gives \<open>mlx-whisper\<close> exactly when the host
  is Apple silicon and \<open>mlx_whisper\<close> can be imported; otherwise \<open>faster-whisper\<close> when
  \<open>faster_whisper\<close> can be imported; otherwise \<open>openai-whisper\<close> when \<open>whisper\<close> can be
  imported; it raises exactly when none of these holds, and so whenever none of the three
  modules can be imported. Being a function of the host, it is deterministic.
\<close>

theorem detect_first_match:
  "(detect_optimal_backend h = Inr ''mlx-whisper''
      \<longleftrightarrow> apple_silicon h \<and> importable h ''mlx_whisper'')
   \<and> (detect_optimal_backend h = Inr ''faster-whisper''
      \<longleftrightarrow> \<not> (apple_silicon h \<and> importable h ''mlx_whisper'') \<and> importable h ''faster_whisper'')
   \<and> (detect_optimal_backend h = Inr ''openai-whisper''
      \<longleftrightarrow> \<not> (apple_silicon h \<and> importable h ''mlx_whisper'') \<and> \<not> importable h ''faster_whisper''
          \<and> importable h ''whisper'')
   \<and> (isl (detect_optimal_backend h)
      \<longleftrightarrow> \<not> (apple_silicon h \<and> importable h ''mlx_whisper'') \<and> \<not> importable h ''faster_whisper''
          \<and> \<not> importable h ''whisper'')
   \<and> (\<not> importable h ''mlx_whisper'' \<and> \<not> importable h ''faster_whisper''
        \<and> \<not> importable h ''whisper''
      \<longrightarrow> (\<exists>msg. detect_optimal_backend h = Inl (ImportError msg)))"
  by (simp add: detect_optimal_backend_def apple_silicon_def is_arm_def Let_def)

theorem detect_first_match_witness:
  "detect_optimal_backend (host_on ''Darwin'' ''arm64'' [''mlx_whisper'', ''faster_whisper''])
     = Inr ''mlx-whisper''
   \<and> detect_optimal_backend (host_on ''Linux'' ''x86_64'' [''whisper'']) = Inr ''openai-whisper''
   \<and> \<not> importable (host_on ''Linux'' ''x86_64'' []) ''mlx_whisper''
   \<and> \<not> importable (host_on ''Linux'' ''x86_64'' []) ''faster_whisper''
   \<and> \<not> importable (host_on ''Linux'' ''x86_64'' []) ''whisper''
   \<and> (\<exists>msg. detect_optimal_backend (host_on ''Linux'' ''x86_64'' []) = Inl (ImportError msg))"
  using detect_first_match [of "host_on ''Darwin'' ''arm64'' [''mlx_whisper'', ''faster_whisper'']"]
    detect_first_match [of "host_on ''Linux'' ''x86_64'' [''whisper'']"]
    detect_first_match [of "host_on ''Linux'' ''x86_64'' []"]
  by (simp add: apple_silicon_def is_arm_def host_on_def importable_def lower_examples)

text \<open>
  Claim C6. Model selection changes the arguments only when the model is \<open>auto\<close>: then the
  model becomes \<open>mlx-community/whisper-tiny-mlx\<close> for the back end \<open>mlx-whisper\<close>, and for
  any other back end \<open>tiny-int8\<close> on an ARM machine and \<open>base-int8\<close> on any other machine.
  No other argument changes, and when \<open>main\<close> comes to serve, the model of its descriptor
  has the selected name.
\<close>

theorem auto_model_selection:
  "(args_model args \<noteq> ''auto'' \<longrightarrow> auto_model h args = args)
   \<and> (args_model args = ''auto'' \<and> args_backend args = ''mlx-whisper''
        \<longrightarrow> auto_model h args = args\<lparr>args_model := ''mlx-community/whisper-tiny-mlx''\<rparr>)
   \<and> (args_model args = ''auto'' \<and> args_backend args \<noteq> ''mlx-whisper'' \<and> is_arm h
        \<longrightarrow> auto_model h args = args\<lparr>args_model := ''tiny-int8''\<rparr>)
   \<and> (args_model args = ''auto'' \<and> args_backend args \<noteq> ''mlx-whisper'' \<and> \<not> is_arm h
        \<longrightarrow> auto_model h args = args\<lparr>args_model := ''base-int8''\<rparr>)
   \<and> (main h en version args = Serving wi served be p \<and> args_model args = ''auto''
        \<longrightarrow> map am_name (concat (map ap_models (asr wi)))
            = [if args_backend served = ''mlx-whisper'' then ''mlx-community/whisper-tiny-mlx''
               else if is_arm h then ''tiny-int8'' else ''base-int8''])"
proof -
  have "main h en version args = Serving wi served be p \<and> args_model args = ''auto''
        \<longrightarrow> map am_name (concat (map ap_models (asr wi)))
            = [if args_backend served = ''mlx-whisper'' then ''mlx-community/whisper-tiny-mlx''
               else if is_arm h then ''tiny-int8'' else ''base-int8'']"
    using main_auto_model [of h en version args wi served be p] by blast
  then show ?thesis
    by (simp add: auto_model_def)
qed

theorem auto_model_selection_witness:
  "args_model (auto_model (host_on ''Linux'' ''aarch64'' []) (args_for ''faster-whisper'' ''small''))
     = ''small''
   \<and> args_model (auto_model (host_on ''Darwin'' ''arm64'' []) (args_for ''mlx-whisper'' ''auto''))
     = ''mlx-community/whisper-tiny-mlx''
   \<and> is_arm (host_on ''Linux'' ''aarch64'' [])
   \<and> args_model (auto_model (host_on ''Linux'' ''aarch64'' []) (args_for ''faster-whisper'' ''auto''))
     = ''tiny-int8''
   \<and> \<not> is_arm (host_on ''Linux'' ''x86_64'' [])
   \<and> args_model (auto_model (host_on ''Linux'' ''x86_64'' []) (args_for ''openai-whisper'' ''auto''))
     = ''base-int8''
   \<and> main (host_on ''Linux'' ''aarch64'' [''faster_whisper'']) installed ''1.0''
        (args_for ''auto'' ''auto'')
     = Serving
         (wyoming_info (host_on ''Linux'' ''aarch64'' [''faster_whisper'']) installed ''1.0''
            ((args_for ''faster-whisper'' ''rhasspy/faster-whisper-tiny-int8'')
               \<lparr>args_download_dir := Some ''/data''\<rparr>)
            ''tiny-int8'' (Faster (faster_answering (Inr (Done, PNone)))))
         ((args_for ''faster-whisper'' ''rhasspy/faster-whisper-tiny-int8'')
            \<lparr>args_download_dir := Some ''/data''\<rparr>)
         (Faster (faster_answering (Inr (Done, PNone)))) None
   \<and> map am_name (concat (map ap_models (asr
        (wyoming_info (host_on ''Linux'' ''aarch64'' [''faster_whisper'']) installed ''1.0''
            ((args_for ''faster-whisper'' ''rhasspy/faster-whisper-tiny-int8'')
               \<lparr>args_download_dir := Some ''/data''\<rparr>)
            ''tiny-int8'' (Faster (faster_answering (Inr (Done, PNone))))))))
     = [''tiny-int8'']"
proof -
  let ?pi = "host_on ''Linux'' ''aarch64'' [''faster_whisper'']"
  let ?served = "(args_for ''faster-whisper'' ''rhasspy/faster-whisper-tiny-int8'')
                   \<lparr>args_download_dir := Some ''/data''\<rparr>"
  let ?be = "Faster (faster_answering (Inr (Done, PNone)))"
  let ?wi = "wyoming_info ?pi installed ''1.0'' ?served ''tiny-int8'' ?be"
  have arm: "is_arm (host_on ''Linux'' ''aarch64'' [])" "is_arm ?pi"
    by (simp_all add: is_arm_def host_on_def lower_examples)
  have x86: "\<not> is_arm (host_on ''Linux'' ''x86_64'' [])"
    by (simp add: is_arm_def host_on_def lower_examples)
  have m: "main ?pi installed ''1.0'' (args_for ''auto'' ''auto'') = Serving ?wi ?served ?be None"
    using arm(2)
    by (simp add: main_def default_download_dir_def auto_backend_def detect_optimal_backend_def
        lower_examples host_on_def importable_def auto_model_def auto_beam_size_def
        resolve_model_name_def int8_match_defaults auto_language_def main_backend_kwargs_def
        create_backend_def backends_def FasterWhisperBackend_init_def installed_def
        faster_answering_def args_for_def Let_def)
  show ?thesis
    using arm x86 m
      auto_model_selection [of "args_for ''faster-whisper'' ''small''" "host_on ''Linux'' ''aarch64'' []"]
      auto_model_selection [of "args_for ''mlx-whisper'' ''auto''" "host_on ''Darwin'' ''arm64'' []"]
      auto_model_selection [of "args_for ''faster-whisper'' ''auto''" "host_on ''Linux'' ''aarch64'' []"]
      auto_model_selection [of "args_for ''openai-whisper'' ''auto''" "host_on ''Linux'' ''x86_64'' []"]
      auto_model_selection [where args = "args_for ''auto'' ''auto''" and h = ?pi and en = installed
        and version = "''1.0''" and wi = ?wi and served = ?served and be = ?be and p = None]
    by (simp add: args_for_def)
qed

section \<open>The session handler\<close>

text \<open>
  Claim C10. A language-set event whose language is absent or empty changes no field of the
  handler, writes nothing to the client and returns \<open>True\<close> (the session stays open); one
  with a non-empty language changes the language field only.
\<close>

theorem transcribe_event_frame:
  "handle_event h self (Transcribe None) = Inr (self, [], True)
   \<and> handle_event h self (Transcribe (Some [])) = Inr (self, [], True)
   \<and> (l \<noteq> [] \<longrightarrow>
        handle_event h self (Transcribe (Some l)) = Inr (self\<lparr>language := Some l\<rparr>, [], True))"
  by simp

theorem transcribe_event_frame_witness:
  "''de'' \<noteq> []
   \<and> language (session (Mlx (mlx_answering (Inr PNone)))) = Some ''en''
   \<and> handle_event (host_on ''Linux'' ''x86_64'' []) (session (Mlx (mlx_answering (Inr PNone))))
       (Transcribe (Some ''de''))
     = Inr ((session (Mlx (mlx_answering (Inr PNone))))\<lparr>language := Some ''de''\<rparr>, [], True)
   \<and> handle_event (host_on ''Linux'' ''x86_64'' []) (session (Mlx (mlx_answering (Inr PNone))))
       (Transcribe (Some ''''))
     = Inr (session (Mlx (mlx_answering (Inr PNone))), [], True)"
  using transcribe_event_frame [of "host_on ''Linux'' ''x86_64'' []"
      "session (Mlx (mlx_answering (Inr PNone)))" "''de''"]
  by (simp add: session_def WhisperEventHandler_init_def args_for_def)

text \<open>
  Claim C3. When the back end returns the segments \<open>segs\<close>, whose texts are strings, the
  transcript the handler writes at the end of the utterance is TranscriptResult: the
  trimmed texts of the segments, without the empty ones, joined by one space, in order.
  The segment texts \<open>hello\<close>, two spaces, \<open>world\<close> give \<open>hello world\<close>, and no segment
  gives the empty string.
\<close>

theorem transcript_joins_trimmed_texts:
  assumes "list_all readable segs"
    and "transcribe h (backend self) f (transcription_kwargs self) = Inr (gen_of_list segs)"
  shows "handle_event h (self\<lparr>wav_file := Some f\<rparr>) AudioStop
           = Inr (self\<lparr>wav_file := None, language := args_language (cli_args self)\<rparr>,
                  [Transcript (TranscriptResult segs)], False)
         \<and> TranscriptResult (texts ts) = join '' '' (filter (\<lambda>t. t \<noteq> []) (map strip ts))
         \<and> TranscriptResult (texts [''hello'', ''  '', ''world'']) = ''hello world''
         \<and> TranscriptResult [] = []"
proof -
  have "transcript_text h (backend self) f (transcription_kwargs self) = TranscriptResult segs"
    using assms by (simp add: transcript_text_readable)
  then have a: "handle_event h (self\<lparr>wav_file := Some f\<rparr>) AudioStop
           = Inr (self\<lparr>wav_file := None, language := args_language (cli_args self)\<rparr>,
                  [Transcript (TranscriptResult segs)], False)"
    by (simp add: transcription_kwargs_def)
  have "List.map_filter segment_text (texts ts) = ts"
    by (induction ts) (simp_all add: texts_def List.map_filter_simps segment_text_def)
  then have b: "TranscriptResult (texts ts) = join '' '' (filter (\<lambda>t. t \<noteq> []) (map strip ts))"
    by (simp add: TranscriptResult_def)
  have c: "TranscriptResult (texts [''hello'', ''  '', ''world'']) = ''hello world''"
    by (simp add: TranscriptResult_def texts_def List.map_filter_simps segment_text_def
        strip_def isspace_def)
  have d: "TranscriptResult [] = []"
    by (simp add: TranscriptResult_def List.map_filter_simps)
  from a b c d show ?thesis by simp
qed

theorem transcript_joins_trimmed_texts_witness:
  "list_all readable (texts [''hello'', ''  '', ''world''])
   \<and> transcribe (host_on ''Linux'' ''x86_64'' [])
        (backend (session (Faster (faster_answering
           (Inr (gen_of_list (texts [''hello'', ''  '', ''world'']), PNone))))))
        speech
        (transcription_kwargs (session (Faster (faster_answering
           (Inr (gen_of_list (texts [''hello'', ''  '', ''world'']), PNone))))))
      = Inr (gen_of_list (texts [''hello'', ''  '', ''world'']))
   \<and> map_sum id (\<lambda>r. fst (snd r))
        (handle_event (host_on ''Linux'' ''x86_64'' [])
           ((session (Faster (faster_answering
               (Inr (gen_of_list (texts [''hello'', ''  '', ''world'']), PNone)))))
            \<lparr>wav_file := Some speech\<rparr>)
           AudioStop)
      = Inr [Transcript ''hello world'']"
proof -
  let ?be = "Faster (faster_answering (Inr (gen_of_list (texts [''hello'', ''  '', ''world'']), PNone)))"
  have r: "list_all readable (texts [''hello'', ''  '', ''world''])"
    by (simp add: texts_def readable_def)
  have t: "transcribe (host_on ''Linux'' ''x86_64'' []) (backend (session ?be)) speech
             (transcription_kwargs (session ?be))
           = Inr (gen_of_list (texts [''hello'', ''  '', ''world'']))"
    by (simp add: session_def WhisperEventHandler_init_def FasterWhisperBackend_transcribe_def
        faster_answering_def)
  from transcript_joins_trimmed_texts [OF r t]
  show ?thesis using r t by (simp add: strip_def isspace_def)
qed

text \<open>
  Claim C2. At an \<open>AudioStop\<close> that ends a recording (the wave file of the utterance is
  open) the handler writes exactly one event, a transcript, and no exception leaves it.
  When the call of the back end raises, or the segment sequence raises while it is read,
  the text of that transcript is empty; nothing of the exception is in the reply.
\<close>

theorem audio_stop_one_transcript:
  "(\<exists>txt. handle_event h (self\<lparr>wav_file := Some f\<rparr>) AudioStop
           = Inr (self\<lparr>wav_file := None, language := args_language (cli_args self)\<rparr>,
                  [Transcript txt], False))
   \<and> (transcribe h (backend self) f (transcription_kwargs self) = Inl e \<longrightarrow>
         handle_event h (self\<lparr>wav_file := Some f\<rparr>) AudioStop
           = Inr (self\<lparr>wav_file := None, language := args_language (cli_args self)\<rparr>,
                  [Transcript []], False))
   \<and> (transcribe h (backend self) f (transcription_kwargs self) = Inr g \<and> raises g = Some e \<longrightarrow>
         handle_event h (self\<lparr>wav_file := Some f\<rparr>) AudioStop
           = Inr (self\<lparr>wav_file := None, language := args_language (cli_args self)\<rparr>,
                  [Transcript []], False))"
  by (simp add: transcription_kwargs_def transcript_text_call_raises transcript_text_iter_raises)

theorem audio_stop_one_transcript_witness:
  "transcribe (host_on ''Linux'' ''x86_64'' [])
      (backend (session (Faster (faster_answering (Inl (EngineError ''out of memory''))))))
      speech
      (transcription_kwargs (session (Faster (faster_answering (Inl (EngineError ''out of memory''))))))
     = Inl (EngineError ''out of memory'')
   \<and> map_sum id (\<lambda>r. fst (snd r))
        (handle_event (host_on ''Linux'' ''x86_64'' [])
           ((session (Faster (faster_answering (Inl (EngineError ''out of memory'')))))
            \<lparr>wav_file := Some speech\<rparr>)
           AudioStop)
      = Inr [Transcript '''']
   \<and> transcribe (host_on ''Linux'' ''x86_64'' [])
        (backend (session (OpenAI (openai_answering (Inl (EngineError ''no route''))))))
        speech
        (transcription_kwargs (session (OpenAI (openai_answering (Inl (EngineError ''no route''))))))
      = Inr (Raise (EngineError ''no route''))
   \<and> raises (Raise (EngineError ''no route'') :: pyval gen) = Some (EngineError ''no route'')
   \<and> map_sum id (\<lambda>r. fst (snd r))
        (handle_event (host_on ''Linux'' ''x86_64'' [])
           ((session (OpenAI (openai_answering (Inl (EngineError ''no route'')))))
            \<lparr>wav_file := Some speech\<rparr>)
           AudioStop)
      = Inr [Transcript '''']"
proof -
  let ?h = "host_on ''Linux'' ''x86_64'' []"
  let ?fw = "session (Faster (faster_answering (Inl (EngineError ''out of memory''))))"
  let ?oa = "session (OpenAI (openai_answering (Inl (EngineError ''no route''))))"
  have a: "transcribe ?h (backend ?fw) speech (transcription_kwargs ?fw)
             = Inl (EngineError ''out of memory'')"
    by (simp add: session_def WhisperEventHandler_init_def FasterWhisperBackend_transcribe_def
        faster_answering_def)
  have b: "transcribe ?h (backend ?oa) speech (transcription_kwargs ?oa)
             = Inr (Raise (EngineError ''no route''))"
    by (simp add: session_def WhisperEventHandler_init_def OpenAIWhisperBackend_transcribe_def
        openai_try_def openai_answering_def host_on_def)
  show ?thesis
    using a b
      audio_stop_one_transcript [where h = ?h and self = ?fw and f = speech
        and e = "EngineError ''out of memory''"]
      audio_stop_one_transcript [where h = ?h and self = ?oa and f = speech
        and e = "EngineError ''no route''" and g = "Raise (EngineError ''no route'')"]
    by simp
qed

text \<open>
  Claim C8, as the code has it. When an utterance is complete the handler has no recording
  open and its language is the configured default again, and \<open>handle_event\<close> returns
  \<open>False\<close>: the session ends there, and no later event of that connection is handled. A
  language-set event before an utterance whose chunk the \<open>wave\<close> module accepts gives the
  language of that utterance only, and the handler of the next connection starts from the
  configured default.
\<close>

theorem utterance_resets_and_closes:
  "(\<exists>txt. handle_event h (self\<lparr>wav_file := Some f\<rparr>) AudioStop
           = Inr (self\<lparr>wav_file := None, language := args_language (cli_args self)\<rparr>,
                  [Transcript txt], False))
   \<and> (\<exists>txt. run h (self\<lparr>wav_file := Some f\<rparr>) (AudioStop # evs)
           = (self\<lparr>wav_file := None, language := args_language (cli_args self)\<rparr>,
              [Transcript txt], Closed))
   \<and> (chunk_ok rate width channels audio \<longrightarrow>
        run h (self\<lparr>wav_file := None\<rparr>)
          (Transcribe (Some (c # cs)) # AudioChunk rate width channels audio # AudioStop # evs)
        = (self\<lparr>wav_file := None, language := args_language (cli_args self)\<rparr>,
           [Transcript
              (transcript_text h (backend self)
                 \<lparr>af_path = wav_path self, af_framerate = rate, af_sampwidth = width,
                  af_nchannels = channels, af_frames = audio\<rparr>
                 \<lparr>kw_language = Some (c # cs), kw_initial_prompt = initial_prompt self,
                  kw_beam_size = args_beam_size (cli_args self)\<rparr>)],
           Closed))
   \<and> language (WhisperEventHandler_init wi args be p d) = args_language args
   \<and> wav_file (WhisperEventHandler_init wi args be p d) = None"
proof -
  have "chunk_ok rate width channels audio \<longrightarrow>
        run h (self\<lparr>wav_file := None\<rparr>)
          (Transcribe (Some (c # cs)) # AudioChunk rate width channels audio # AudioStop # evs)
        = (self\<lparr>wav_file := None, language := args_language (cli_args self)\<rparr>,
           [Transcript
              (transcript_text h (backend self)
                 \<lparr>af_path = wav_path self, af_framerate = rate, af_sampwidth = width,
                  af_nchannels = channels, af_frames = audio\<rparr>
                 \<lparr>kw_language = Some (c # cs), kw_initial_prompt = initial_prompt self,
                  kw_beam_size = args_beam_size (cli_args self)\<rparr>)],
           Closed)"
    by (simp add: first_chunk_ok transcription_kwargs_def)
  then show ?thesis
    by (simp add: transcription_kwargs_def WhisperEventHandler_init_def)
qed

theorem utterance_resets_and_closes_witness:
  "chunk_ok 16000 2 1 ''abcd''
   \<and> language ((session (Faster faster_echoing_language))\<lparr>wav_file := None\<rparr>) = Some ''en''
   \<and> snd (run (host_on ''Linux'' ''x86_64'' [])
        ((session (Faster faster_echoing_language))\<lparr>wav_file := None\<rparr>)
        [Transcribe (Some ''de''), AudioChunk 16000 2 1 ''abcd'', AudioStop, Describe])
     = ([Transcript ''de''], Closed)
   \<and> language (fst (run (host_on ''Linux'' ''x86_64'' [])
        ((session (Faster faster_echoing_language))\<lparr>wav_file := None\<rparr>)
        [Transcribe (Some ''de''), AudioChunk 16000 2 1 ''abcd'', AudioStop, Describe]))
     = Some ''en''
   \<and> wav_file (fst (run (host_on ''Linux'' ''x86_64'' [])
        ((session (Faster faster_echoing_language))\<lparr>wav_file := None\<rparr>)
        [Transcribe (Some ''de''), AudioChunk 16000 2 1 ''abcd'', AudioStop, Describe]))
     = None"
proof -
  have ok: "chunk_ok 16000 2 1 ''abcd''"
    by (simp add: chunk_ok_def fits_def)
  show ?thesis
    using ok
      utterance_resets_and_closes [where h = "host_on ''Linux'' ''x86_64'' []"
        and self = "session (Faster faster_echoing_language)" and rate = 16000 and width = 2
        and channels = 1 and audio = "''abcd''" and c = "CHR ''d''" and cs = "''e''"
        and evs = "[Describe]"]
    by (simp add: session_def WhisperEventHandler_init_def args_for_def transcript_text_def
        FasterWhisperBackend_transcribe_def faster_echoing_language_def strip_def isspace_def)
qed

text \<open>
  The claim as the specification has it fails: after a complete utterance the session is not
  ready for further events. A \<open>Describe\<close> that follows the utterance on the same connection
  is never answered.
\<close>

theorem utterance_closes_session_counterexample:
  "snd (run (host_on ''Linux'' ''x86_64'' [])
          (session (Faster (faster_answering (Inr (gen_of_list (texts [''hello'']), PNone)))))
          [AudioChunk 16000 2 1 ''abcd'', AudioStop, Describe])
     = ([Transcript ''hello''], Closed)"
  by (simp add: session_def WhisperEventHandler_init_def args_for_def transcription_kwargs_def
      transcript_text_def FasterWhisperBackend_transcribe_def faster_answering_def texts_def
      strip_def isspace_def wave_open_def write_first_def fits_def)

text \<open>
  Claim C9. \<open>main\<close> builds the descriptor once, from the attribution, the version and the
  languages of the back end it has created and from the resolved model name, and gives it
  to every handler. A handler answers \<open>Describe\<close> with the event of that descriptor and
  changes none of its fields; no event changes the descriptor event, so the answer is the
  same before and after any event, a complete utterance included; and everything a session
  writes is a transcript or that event.
\<close>

theorem describe_serves_descriptor:
  "handle_event h self Describe = Inr (self, [wyoming_info_event self], True)
   \<and> wyoming_info_event (WhisperEventHandler_init wi args be p d) = InfoEvent wi
   \<and> (handle_event h self ev = Inr (self1, out1, k) \<longrightarrow>
        handle_event h self1 Describe = Inr (self1, [wyoming_info_event self], True))
   \<and> (run h (WhisperEventHandler_init wi args be p d) evs = (self', out, r) \<longrightarrow>
        wyoming_info_event self' = InfoEvent wi \<and> list_all (reply_of (InfoEvent wi)) out)
   \<and> (main h en version args0 = Serving wi args be p \<longrightarrow>
        (\<exists>model_name.
           (args_model args = model_name
            \<or> args_model args = ''rhasspy/faster-whisper-'' @ model_name)
           \<and> create_backend h en (args_backend args) (args_model args)
                (main_backend_kwargs args) = Inr be
           \<and> asr wi =
               [\<lparr>ap_name = args_backend args,
                 ap_description = ''Whisper transcription using '' @ args_backend args,
                 ap_attribution = get_attribution be,
                 ap_installed = True,
                 ap_version = version,
                 ap_models =
                   [\<lparr>am_name = model_name,
                     am_description = model_name,
                     am_attribution = get_attribution be,
                     am_installed = True,
                     am_languages = get_supported_languages be,
                     am_version = get_version h en be\<rparr>]\<rparr>]))"
proof -
  have a: "handle_event h self ev = Inr (self1, out1, k) \<longrightarrow>
        handle_event h self1 Describe = Inr (self1, [wyoming_info_event self], True)"
    using handle_event_info [of h self ev self1 out1 k] by simp
  have b: "run h (WhisperEventHandler_init wi args be p d) evs = (self', out, r) \<longrightarrow>
        wyoming_info_event self' = InfoEvent wi \<and> list_all (reply_of (InfoEvent wi)) out"
    using run_replies [of h "WhisperEventHandler_init wi args be p d" evs self' out r]
    by (simp add: WhisperEventHandler_init_def)
  have c: "main h en version args0 = Serving wi args be p \<longrightarrow>
        (\<exists>model_name.
           (args_model args = model_name
            \<or> args_model args = ''rhasspy/faster-whisper-'' @ model_name)
           \<and> create_backend h en (args_backend args) (args_model args)
                (main_backend_kwargs args) = Inr be
           \<and> wi = wyoming_info h en version args model_name be)"
    using main_Serving [of h en version args0 wi args be p] by blast
  have d: "handle_event h self Describe = Inr (self, [wyoming_info_event self], True)
      \<and> wyoming_info_event (WhisperEventHandler_init wi args be p d) = InfoEvent wi"
    by (simp add: WhisperEventHandler_init_def)
  from c have c': "main h en version args0 = Serving wi args be p \<longrightarrow>
        (\<exists>model_name.
           (args_model args = model_name
            \<or> args_model args = ''rhasspy/faster-whisper-'' @ model_name)
           \<and> create_backend h en (args_backend args) (args_model args)
                (main_backend_kwargs args) = Inr be
           \<and> asr wi =
               [\<lparr>ap_name = args_backend args,
                 ap_description = ''Whisper transcription using '' @ args_backend args,
                 ap_attribution = get_attribution be,
                 ap_installed = True,
                 ap_version = version,
                 ap_models =
                   [\<lparr>am_name = model_name,
                     am_description = model_name,
                     am_attribution = get_attribution be,
                     am_installed = True,
                     am_languages = get_supported_languages be,
                     am_version = get_version h en be\<rparr>]\<rparr>])"
    by (auto simp: wyoming_info_def)
  from a b c' d show ?thesis
    by blast
qed

theorem describe_serves_descriptor_witness:
  "main (host_on ''Darwin'' ''arm64'' [''mlx_whisper'']) installed ''1.0'' (args_for ''auto'' ''auto'')
     = Serving
         (wyoming_info (host_on ''Darwin'' ''arm64'' [''mlx_whisper'']) installed ''1.0''
            ((args_for ''mlx-whisper'' ''mlx-community/whisper-tiny-mlx'')
               \<lparr>args_download_dir := Some ''/data''\<rparr>)
            ''mlx-community/whisper-tiny-mlx'' (Mlx (mlx_answering (Inr PNone))))
         ((args_for ''mlx-whisper'' ''mlx-community/whisper-tiny-mlx'')
            \<lparr>args_download_dir := Some ''/data''\<rparr>)
         (Mlx (mlx_answering (Inr PNone))) None
   \<and> map am_name (concat (map ap_models (asr
        (wyoming_info (host_on ''Darwin'' ''arm64'' [''mlx_whisper'']) installed ''1.0''
            ((args_for ''mlx-whisper'' ''mlx-community/whisper-tiny-mlx'')
               \<lparr>args_download_dir := Some ''/data''\<rparr>)
            ''mlx-community/whisper-tiny-mlx'' (Mlx (mlx_answering (Inr PNone)))))))
     = [''mlx-community/whisper-tiny-mlx'']
   \<and> fst (snd (run (host_on ''Darwin'' ''arm64'' [''mlx_whisper''])
        (session (Mlx (mlx_answering (Inr PNone))))
        [Describe, AudioChunk 16000 2 1 ''abcd'', AudioStop]))
     = [wyoming_info_event (session (Mlx (mlx_answering (Inr PNone)))), Transcript '''']
   \<and> map_sum id (\<lambda>r. fst (snd r))
        (handle_event (host_on ''Darwin'' ''arm64'' [''mlx_whisper''])
           ((session (Mlx (mlx_answering (Inr PNone))))
              \<lparr>wav_file := None, language := Some ''en''\<rparr>)
           Describe)
     = Inr [wyoming_info_event (session (Mlx (mlx_answering (Inr PNone))))]"
proof -
  let ?h = "host_on ''Darwin'' ''arm64'' [''mlx_whisper'']"
  let ?args = "(args_for ''mlx-whisper'' ''mlx-community/whisper-tiny-mlx'')
                 \<lparr>args_download_dir := Some ''/data''\<rparr>"
  let ?be = "Mlx (mlx_answering (Inr PNone))"
  let ?wi = "wyoming_info ?h installed ''1.0'' ?args ''mlx-community/whisper-tiny-mlx'' ?be"
  let ?s = "session ?be"
  have m: "main ?h installed ''1.0'' (args_for ''auto'' ''auto'') = Serving ?wi ?args ?be None"
    by (simp add: main_def detect_optimal_backend_def lower_examples host_on_def importable_def
        auto_model_def auto_beam_size_def is_arm_def resolve_model_name_def create_backend_def
        default_download_dir_def auto_backend_def auto_language_def main_backend_kwargs_def
        backends_def MLXWhisperBackend_init_def installed_def mlx_answering_def args_for_def
        Let_def)
  have s: "handle_event ?h (?s\<lparr>wav_file := Some speech\<rparr>) AudioStop
             = Inr (?s\<lparr>wav_file := None, language := Some ''en''\<rparr>, [Transcript ''''], False)"
    by (simp add: session_def WhisperEventHandler_init_def args_for_def transcription_kwargs_def
        transcript_text_def MLXWhisperBackend_transcribe_def mlx_try_def mlx_answering_def)
  have r: "run ?h ?s [Describe, AudioChunk 16000 2 1 ''abcd'', AudioStop]
             = (?s\<lparr>wav_file := None, language := Some ''en''\<rparr>,
                [wyoming_info_event ?s, Transcript ''''], Closed)"
    by (simp add: session_def WhisperEventHandler_init_def args_for_def transcription_kwargs_def
        transcript_text_def MLXWhisperBackend_transcribe_def mlx_try_def mlx_answering_def
        wave_open_def write_first_def fits_def)
  show ?thesis
    using m s r
      describe_serves_descriptor [where h = ?h and en = installed and version = "''1.0''"
        and ?args0.0 = "args_for ''auto'' ''auto''" and wi = ?wi and args = ?args and be = ?be
        and p = None and self = "?s\<lparr>wav_file := Some speech\<rparr>" and ev = AudioStop
        and ?self1.0 = "?s\<lparr>wav_file := None, language := Some ''en''\<rparr>"
        and ?out1.0 = "[Transcript '''']" and k = False]
    by (simp add: wyoming_info_def)
qed

section \<open>The back ends\<close>

text \<open>
  Claim C1, as the code has it. \<open>transcribe\<close> of the MLX back end never raises: when its
  engine fails it yields one segment whose text is empty, after the segments it had already
  yielded. \<open>transcribe\<close> of the OpenAI back end raises the exception of the engine (or of
  opening the file) again, and that of the faster-whisper back end lets it through. The
  session handler catches whatever a back end raises, at the call or while it reads the
  segments, and its transcript is then empty.
\<close>

theorem backend_failures:
  "raises (MLXWhisperBackend_transcribe mb f kw) = None
   \<and> (mlx_transcribe (mlx_whisper mb) f (mlx_transcribe_options mb kw) = Inl e \<longrightarrow>
        MLXWhisperBackend_transcribe mb f kw = Yield (Segment1 (PStr [])) Done)
   \<and> (open_rb h (af_path f) = Some e \<longrightarrow> OpenAIWhisperBackend_transcribe h ob f kw = Raise e)
   \<and> (open_rb h (af_path f) = None
        \<and> create (client ob) (openai_transcribe_kwargs ob f kw) = Inl e \<longrightarrow>
        OpenAIWhisperBackend_transcribe h ob f kw = Raise e)
   \<and> (fw_transcribe (fwb_model fb) f (get_default (kw_beam_size kw) 5) (kw_language kw)
          (kw_initial_prompt kw) = Inl e \<longrightarrow>
        FasterWhisperBackend_transcribe fb f kw = Inl e)
   \<and> (transcribe h be f kw = Inl e \<or> (\<exists>g. transcribe h be f kw = Inr g \<and> raises g = Some e) \<longrightarrow>
        transcript_text h be f kw = [])"
proof -
  have a: "raises (MLXWhisperBackend_transcribe mb f kw) = None"
    by (simp add: MLXWhisperBackend_transcribe_def raises_catch_yield)
  have b: "mlx_transcribe (mlx_whisper mb) f (mlx_transcribe_options mb kw) = Inl e \<longrightarrow>
        MLXWhisperBackend_transcribe mb f kw = Yield (Segment1 (PStr [])) Done"
    by (simp add: MLXWhisperBackend_transcribe_def mlx_try_def)
  have c: "open_rb h (af_path f) = Some e \<longrightarrow> OpenAIWhisperBackend_transcribe h ob f kw = Raise e"
    by (simp add: OpenAIWhisperBackend_transcribe_def openai_try_def)
  have d: "open_rb h (af_path f) = None
        \<and> create (client ob) (openai_transcribe_kwargs ob f kw) = Inl e \<longrightarrow>
        OpenAIWhisperBackend_transcribe h ob f kw = Raise e"
    by (simp add: OpenAIWhisperBackend_transcribe_def openai_try_def)
  have e: "fw_transcribe (fwb_model fb) f (get_default (kw_beam_size kw) 5) (kw_language kw)
          (kw_initial_prompt kw) = Inl e \<longrightarrow>
        FasterWhisperBackend_transcribe fb f kw = Inl e"
    by (simp add: FasterWhisperBackend_transcribe_def)
  have f: "transcribe h be f kw = Inl e \<or> (\<exists>g. transcribe h be f kw = Inr g \<and> raises g = Some e) \<longrightarrow>
        transcript_text h be f kw = []"
    using transcript_text_call_raises [of h be f kw e] transcript_text_iter_raises [of h be f kw _ e]
    by blast
  from a b c d e f show ?thesis by blast
qed

theorem backend_failures_witness:
  "mlx_transcribe (mlx_whisper (mlx_answering (Inl (EngineError ''metal''))))
       speech (mlx_transcribe_options (mlx_answering (Inl (EngineError ''metal''))) plain)
     = Inl (EngineError ''metal'')
   \<and> consume (MLXWhisperBackend_transcribe (mlx_answering (Inl (EngineError ''metal''))) speech plain)
     = Inr [Segment1 (PStr [])]
   \<and> open_rb (host_on ''Linux'' ''x86_64'' []) (af_path speech) = None
   \<and> create (client (openai_answering (Inl (EngineError ''no route''))))
        (openai_transcribe_kwargs (openai_answering (Inl (EngineError ''no route''))) speech plain)
     = Inl (EngineError ''no route'')
   \<and> OpenAIWhisperBackend_transcribe (host_on ''Linux'' ''x86_64'' [])
        (openai_answering (Inl (EngineError ''no route''))) speech plain
     = Raise (EngineError ''no route'')
   \<and> transcript_text (host_on ''Linux'' ''x86_64'' [])
        (OpenAI (openai_answering (Inl (EngineError ''no route'')))) speech plain = []
   \<and> FasterWhisperBackend_transcribe (faster_answering (Inl (EngineError ''out of memory'')))
        speech plain
     = Inl (EngineError ''out of memory'')
   \<and> transcript_text (host_on ''Linux'' ''x86_64'' [])
        (Faster (faster_answering (Inl (EngineError ''out of memory'')))) speech plain = []"
proof -
  let ?h = "host_on ''Linux'' ''x86_64'' []"
  let ?mb = "mlx_answering (Inl (EngineError ''metal''))"
  let ?ob = "openai_answering (Inl (EngineError ''no route''))"
  let ?fb = "faster_answering (Inl (EngineError ''out of memory''))"
  have m: "mlx_transcribe (mlx_whisper ?mb) speech (mlx_transcribe_options ?mb plain)
             = Inl (EngineError ''metal'')"
    by (simp add: mlx_answering_def)
  have o: "open_rb ?h (af_path speech) = None"
    "create (client ?ob) (openai_transcribe_kwargs ?ob speech plain) = Inl (EngineError ''no route'')"
    by (simp_all add: host_on_def openai_answering_def)
  have w: "fw_transcribe (fwb_model ?fb) speech (get_default (kw_beam_size plain) 5)
             (kw_language plain) (kw_initial_prompt plain) = Inl (EngineError ''out of memory'')"
    by (simp add: faster_answering_def)
  note t1 = backend_failures [where mb = ?mb and f = speech and kw = plain and h = ?h and ob = ?ob
      and fb = ?fb and e = "EngineError ''metal''" and be = "Mlx ?mb"]
  note t2 = backend_failures [where mb = ?mb and f = speech and kw = plain and h = ?h and ob = ?ob
      and fb = ?fb and e = "EngineError ''no route''" and be = "OpenAI ?ob"]
  note t3 = backend_failures [where mb = ?mb and f = speech and kw = plain and h = ?h and ob = ?ob
      and fb = ?fb and e = "EngineError ''out of memory''" and be = "Faster ?fb"]
  show ?thesis
    using m o w t1 t2 t3 by simp
qed

text \<open>
  The claim as the specification has it fails for two of the three back ends: the caller of
  the OpenAI back end who reads the segments gets the exception of the engine, and the call
  of the faster-whisper back end raises it.
\<close>

theorem backend_raises_counterexample:
  "consume (OpenAIWhisperBackend_transcribe (host_on ''Linux'' ''x86_64'' [])
       (openai_answering (Inl (EngineError ''no route''))) speech plain)
     = Inl (EngineError ''no route'')
   \<and> FasterWhisperBackend_transcribe (faster_answering (Inl (EngineError ''out of memory'')))
        speech plain
     = Inl (EngineError ''out of memory'')"
  by (simp add: OpenAIWhisperBackend_transcribe_def openai_try_def openai_answering_def
      host_on_def speech_def FasterWhisperBackend_transcribe_def faster_answering_def)

text \<open>
  Claim C4, as the code has it. The MLX back end yields, from the \<open>try\<close> block, only
  segments whose trimmed text is not empty; from a result with no segment breakdown it
  yields one segment with the trimmed full text, or none when that text is blank; when
  the engine or the translation fails it yields one more segment, whose text is empty. The
  OpenAI back end yields one segment for each segment of the response, with its text as it
  is, blank or not; from a response with no segment breakdown it yields exactly one segment
  with the full text; when the engine fails it raises. The faster-whisper back end returns
  the sequence of the engine as it is.
\<close>

theorem backend_normalization:
  "list_all nonblank (yielded (mlx_try mb f kw))
   \<and> yielded (MLXWhisperBackend_transcribe mb f kw)
       = yielded (mlx_try mb f kw)
         @ (if raises (mlx_try mb f kw) = None then [] else [Segment1 (PStr [])])
   \<and> (mlx_transcribe (mlx_whisper mb) f (mlx_transcribe_options mb kw) = Inr (PDict d)
        \<and> lacks d ''segments'' \<and> map_of d ''text'' = Some (PStr s) \<longrightarrow>
        MLXWhisperBackend_transcribe mb f kw
          = (if strip s \<noteq> [] then Yield (Segment3 (strip s) (PNum 0) (PNum 0)) Done else Done))
   \<and> (mlx_transcribe (mlx_whisper mb) f (mlx_transcribe_options mb kw) = Inl e \<longrightarrow>
        MLXWhisperBackend_transcribe mb f kw = Yield (Segment1 (PStr [])) Done)
   \<and> (open_rb h (af_path f) = None
        \<and> create (client ob) (openai_transcribe_kwargs ob f kw) = Inr (PObj attrs)
        \<and> map_of attrs ''segments'' = Some (PList items) \<and> items \<noteq> []
        \<and> list_all2 (\<lambda>sg t. py_getattr sg ''text'' = Inr t) items ts \<longrightarrow>
        OpenAIWhisperBackend_transcribe h ob f kw = gen_of_list (map Segment1 ts))
   \<and> (open_rb h (af_path f) = None
        \<and> create (client ob) (openai_transcribe_kwargs ob f kw) = Inr (PObj attrs)
        \<and> lacks attrs ''segments'' \<and> map_of attrs ''text'' = Some t \<longrightarrow>
        OpenAIWhisperBackend_transcribe h ob f kw = Yield (Segment1 t) Done)
   \<and> (open_rb h (af_path f) = None
        \<and> create (client ob) (openai_transcribe_kwargs ob f kw) = Inl e \<longrightarrow>
        OpenAIWhisperBackend_transcribe h ob f kw = Raise e)
   \<and> (fw_transcribe (fwb_model fb) f (get_default (kw_beam_size kw) 5) (kw_language kw)
          (kw_initial_prompt kw) = Inr (g, i) \<longrightarrow>
        FasterWhisperBackend_transcribe fb f kw = Inr g)"
proof -
  have a: "list_all nonblank (yielded (mlx_try mb f kw))"
    by (rule mlx_try_nonblank)
  have b: "yielded (MLXWhisperBackend_transcribe mb f kw)
       = yielded (mlx_try mb f kw)
         @ (if raises (mlx_try mb f kw) = None then [] else [Segment1 (PStr [])])"
    by (simp add: MLXWhisperBackend_transcribe_def yielded_catch_yield)
  have c: "mlx_transcribe (mlx_whisper mb) f (mlx_transcribe_options mb kw) = Inr (PDict d)
        \<and> lacks d ''segments'' \<and> map_of d ''text'' = Some (PStr s) \<longrightarrow>
        MLXWhisperBackend_transcribe mb f kw
          = (if strip s \<noteq> [] then Yield (Segment3 (strip s) (PNum 0) (PNum 0)) Done else Done)"
    by (auto simp: MLXWhisperBackend_transcribe_def mlx_try_def mlx_full_text_def lacks_def
        split: option.splits)
  have d: "mlx_transcribe (mlx_whisper mb) f (mlx_transcribe_options mb kw) = Inl e \<longrightarrow>
        MLXWhisperBackend_transcribe mb f kw = Yield (Segment1 (PStr [])) Done"
    by (simp add: MLXWhisperBackend_transcribe_def mlx_try_def)
  have e: "open_rb h (af_path f) = None
        \<and> create (client ob) (openai_transcribe_kwargs ob f kw) = Inr (PObj attrs)
        \<and> map_of attrs ''segments'' = Some (PList items) \<and> items \<noteq> []
        \<and> list_all2 (\<lambda>sg t. py_getattr sg ''text'' = Inr t) items ts \<longrightarrow>
        OpenAIWhisperBackend_transcribe h ob f kw = gen_of_list (map Segment1 ts)"
    by (simp add: OpenAIWhisperBackend_transcribe_def openai_try_def catch_reraise
        openai_segments_texts)
  have f: "open_rb h (af_path f) = None
        \<and> create (client ob) (openai_transcribe_kwargs ob f kw) = Inr (PObj attrs)
        \<and> lacks attrs ''segments'' \<and> map_of attrs ''text'' = Some t \<longrightarrow>
        OpenAIWhisperBackend_transcribe h ob f kw = Yield (Segment1 t) Done"
    by (auto simp: OpenAIWhisperBackend_transcribe_def openai_try_def openai_full_text_def
        lacks_def split: option.splits)
  have g: "open_rb h (af_path f) = None
        \<and> create (client ob) (openai_transcribe_kwargs ob f kw) = Inl e \<longrightarrow>
        OpenAIWhisperBackend_transcribe h ob f kw = Raise e"
    by (simp add: OpenAIWhisperBackend_transcribe_def openai_try_def)
  have h: "fw_transcribe (fwb_model fb) f (get_default (kw_beam_size kw) 5) (kw_language kw)
          (kw_initial_prompt kw) = Inr (g, i) \<longrightarrow>
        FasterWhisperBackend_transcribe fb f kw = Inr g"
    by (simp add: FasterWhisperBackend_transcribe_def)
  from a b c d e f g h show ?thesis by blast
qed

theorem backend_normalization_witness:
  "mlx_transcribe (mlx_whisper (mlx_answering (Inr (PDict [(''text'', PStr '' good morning '')]))))
       speech
       (mlx_transcribe_options (mlx_answering (Inr (PDict [(''text'', PStr '' good morning '')])))
          plain)
     = Inr (PDict [(''text'', PStr '' good morning '')])
   \<and> lacks [(''text'', PStr '' good morning '')] ''segments''
   \<and> MLXWhisperBackend_transcribe
        (mlx_answering (Inr (PDict [(''text'', PStr '' good morning '')]))) speech plain
     = Yield (Segment3 ''good morning'' (PNum 0) (PNum 0)) Done
   \<and> MLXWhisperBackend_transcribe (mlx_answering (Inl (EngineError ''metal''))) speech plain
     = Yield (Segment1 (PStr [])) Done
   \<and> list_all2 (\<lambda>sg t. py_getattr sg ''text'' = Inr t)
        [PObj [(''text'', PStr ''hello '')], PObj [(''text'', PStr ''  '')]]
        [PStr ''hello '', PStr ''  '']
   \<and> OpenAIWhisperBackend_transcribe (host_on ''Linux'' ''x86_64'' [])
        (openai_answering (Inr (PObj
           [(''segments'', PList [PObj [(''text'', PStr ''hello '')], PObj [(''text'', PStr ''  '')]]),
            (''text'', PStr ''hello   '')])))
        speech plain
     = Yield (Segment1 (PStr ''hello '')) (Yield (Segment1 (PStr ''  '')) Done)
   \<and> lacks [(''text'', PStr ''hello'')] ''segments''
   \<and> OpenAIWhisperBackend_transcribe (host_on ''Linux'' ''x86_64'' [])
        (openai_answering (Inr (PObj [(''text'', PStr ''hello'')]))) speech plain
     = Yield (Segment1 (PStr ''hello'')) Done
   \<and> OpenAIWhisperBackend_transcribe (host_on ''Linux'' ''x86_64'' [])
        (openai_answering (Inl (EngineError ''no route''))) speech plain
     = Raise (EngineError ''no route'')
   \<and> FasterWhisperBackend_transcribe
        (faster_answering (Inr (gen_of_list (texts [''hello'']), PNone))) speech plain
     = Inr (gen_of_list (texts [''hello'']))"
proof -
  let ?h = "host_on ''Linux'' ''x86_64'' []"
  let ?d = "[(''text'', PStr '' good morning '')]"
  let ?mb = "mlx_answering (Inr (PDict ?d))"
  let ?mf = "mlx_answering (Inl (EngineError ''metal''))"
  let ?items = "[PObj [(''text'', PStr ''hello '')], PObj [(''text'', PStr ''  '')]]"
  let ?attrs = "[(''segments'', PList ?items), (''text'', PStr ''hello   '')]"
  let ?ob = "openai_answering (Inr (PObj ?attrs))"
  let ?of = "openai_answering (Inr (PObj [(''text'', PStr ''hello'')]))"
  let ?oe = "openai_answering (Inl (EngineError ''no route''))"
  let ?fb = "faster_answering (Inr (gen_of_list (texts [''hello'']), PNone))"
  have s: "strip '' good morning '' = ''good morning''"
    by (simp add: strip_def isspace_def)
  have o: "open_rb ?h (af_path speech) = None"
    by (simp add: host_on_def)
  have l: "list_all2 (\<lambda>sg t. py_getattr sg ''text'' = Inr t) ?items [PStr ''hello '', PStr ''  '']"
    by simp
  note t1 = backend_normalization [where mb = ?mb and f = speech and kw = plain and d = ?d
      and s = "'' good morning ''" and h = ?h and ob = ?ob and attrs = ?attrs and items = ?items
      and ts = "[PStr ''hello '', PStr ''  '']" and fb = ?fb and g = "gen_of_list (texts [''hello''])"
      and i = PNone]
  note t2 = backend_normalization [where mb = ?mf and f = speech and kw = plain
      and e = "EngineError ''metal''" and h = ?h and ob = ?of
      and attrs = "[(''text'', PStr ''hello'')]" and t = "PStr ''hello''"]
  note t3 = backend_normalization [where f = speech and kw = plain
      and e = "EngineError ''no route''" and h = ?h and ob = ?oe]
  show ?thesis
    using s o l t1 t2 t3
    by (simp add: mlx_answering_def openai_answering_def faster_answering_def lacks_def)
qed

text \<open>
  The claim as the specification has it fails: the OpenAI back end passes a blank segment of
  the response on, and the MLX back end yields a segment with empty text when its engine
  fails.
\<close>

theorem backend_blank_segment_counterexample:
  "\<not> list_all nonblank (yielded (OpenAIWhisperBackend_transcribe (host_on ''Linux'' ''x86_64'' [])
        (openai_answering (Inr (PObj
           [(''segments'', PList [PObj [(''text'', PStr ''hello '')], PObj [(''text'', PStr ''  '')]]),
            (''text'', PStr ''hello   '')])))
        speech plain))
   \<and> yielded (MLXWhisperBackend_transcribe (mlx_answering (Inl (EngineError ''metal''))) speech plain)
     = [Segment1 (PStr [])]"
  by (simp add: OpenAIWhisperBackend_transcribe_def openai_try_def openai_answering_def
      host_on_def speech_def MLXWhisperBackend_transcribe_def mlx_try_def mlx_answering_def
      nonblank_def segment_text_def Segment1_def strip_def isspace_def)

text \<open>
  Claim C7, as the code has it. Construction returns a back end or raises. Every back end
  raises \<open>ImportError\<close> when its package cannot be imported, and the OpenAI back end raises
  \<open>ValueError\<close> when neither the \<open>api_key\<close> argument nor \<open>OPENAI_API_KEY\<close> gives a key. A
  model name the back end does not know is not an error for the OpenAI and MLX back ends:
  the first always uses \<open>whisper-1\<close>, the second falls back to
  \<open>mlx-community/whisper-tiny-mlx\<close>. The faster-whisper back end raises what the model
  loader of its engine raises.
\<close>

theorem construction_outcomes:
  "(\<not> importable h ''openai'' \<longrightarrow>
      (\<exists>msg. OpenAIWhisperBackend_init h om name bk = Inl (ImportError msg)))
   \<and> (importable h ''openai'' \<and> \<not> given (py_or (bk_api_key bk) (OPENAI_API_KEY h)) \<longrightarrow>
      (\<exists>msg. OpenAIWhisperBackend_init h om name bk = Inl (ValueError msg)))
   \<and> (importable h ''openai'' \<and> py_or (bk_api_key bk) (OPENAI_API_KEY h) = Some key
        \<and> key \<noteq> [] \<longrightarrow>
      OpenAIWhisperBackend_init h om name bk
        = map_sum id (\<lambda>c. \<lparr>client = c, oa_model_name = ''whisper-1''\<rparr>)
            (OpenAI_client om key))
   \<and> (\<not> importable h ''mlx_whisper'' \<longrightarrow>
      (\<exists>msg. MLXWhisperBackend_init h mm name bk = Inl (ImportError msg)))
   \<and> (importable h ''mlx_whisper'' \<and> startswith name ''mlx-community/'' \<longrightarrow>
      MLXWhisperBackend_init h mm name bk = Inr \<lparr>mlx_whisper = mm, model_path = name\<rparr>)
   \<and> (importable h ''mlx_whisper'' \<and> \<not> startswith name ''mlx-community/''
        \<and> name \<in> set [''tiny'', ''base'', ''small'', ''medium'', ''large''] \<longrightarrow>
      MLXWhisperBackend_init h mm name bk
        = Inr \<lparr>mlx_whisper = mm, model_path = ''mlx-community/whisper-'' @ name @ ''-mlx''\<rparr>)
   \<and> (importable h ''mlx_whisper'' \<and> \<not> startswith name ''mlx-community/''
        \<and> name \<notin> set [''tiny'', ''base'', ''small'', ''medium'', ''large''] \<longrightarrow>
      MLXWhisperBackend_init h mm name bk
        = Inr \<lparr>mlx_whisper = mm, model_path = ''mlx-community/whisper-tiny-mlx''\<rparr>)
   \<and> (\<not> importable h ''faster_whisper'' \<longrightarrow>
      (\<exists>msg. FasterWhisperBackend_init h fm name bk = Inl (ImportError msg)))
   \<and> (importable h ''faster_whisper'' \<longrightarrow>
      FasterWhisperBackend_init h fm name bk
        = map_sum id (\<lambda>md. \<lparr>fwb_model = md, fwb_faster_whisper = fm\<rparr>)
            (WhisperModel fm name (bk_download_dir bk) (get_default (bk_device bk) ''cpu'')
               (get_default (bk_compute_type bk) ''default'')))"
proof -
  have oa: "(\<not> importable h ''openai'' \<longrightarrow>
      (\<exists>msg. OpenAIWhisperBackend_init h om name bk = Inl (ImportError msg)))
   \<and> (importable h ''openai'' \<and> \<not> given (py_or (bk_api_key bk) (OPENAI_API_KEY h)) \<longrightarrow>
      (\<exists>msg. OpenAIWhisperBackend_init h om name bk = Inl (ValueError msg)))
   \<and> (importable h ''openai'' \<and> py_or (bk_api_key bk) (OPENAI_API_KEY h) = Some key
        \<and> key \<noteq> [] \<longrightarrow>
      OpenAIWhisperBackend_init h om name bk
        = map_sum id (\<lambda>c. \<lparr>client = c, oa_model_name = ''whisper-1''\<rparr>)
            (OpenAI_client om key))"
    by (cases "py_or (bk_api_key bk) (OPENAI_API_KEY h)")
      (auto simp: OpenAIWhisperBackend_init_def split: sum.splits)
  have mlx: "(\<not> importable h ''mlx_whisper'' \<longrightarrow>
      (\<exists>msg. MLXWhisperBackend_init h mm name bk = Inl (ImportError msg)))
   \<and> (importable h ''mlx_whisper'' \<and> startswith name ''mlx-community/'' \<longrightarrow>
      MLXWhisperBackend_init h mm name bk = Inr \<lparr>mlx_whisper = mm, model_path = name\<rparr>)
   \<and> (importable h ''mlx_whisper'' \<and> \<not> startswith name ''mlx-community/''
        \<and> name \<in> set [''tiny'', ''base'', ''small'', ''medium'', ''large''] \<longrightarrow>
      MLXWhisperBackend_init h mm name bk
        = Inr \<lparr>mlx_whisper = mm, model_path = ''mlx-community/whisper-'' @ name @ ''-mlx''\<rparr>)
   \<and> (importable h ''mlx_whisper'' \<and> \<not> startswith name ''mlx-community/''
        \<and> name \<notin> set [''tiny'', ''base'', ''small'', ''medium'', ''large''] \<longrightarrow>
      MLXWhisperBackend_init h mm name bk
        = Inr \<lparr>mlx_whisper = mm, model_path = ''mlx-community/whisper-tiny-mlx''\<rparr>)"
    by (simp add: MLXWhisperBackend_init_def)
  have fw: "(\<not> importable h ''faster_whisper'' \<longrightarrow>
      (\<exists>msg. FasterWhisperBackend_init h fm name bk = Inl (ImportError msg)))
   \<and> (importable h ''faster_whisper'' \<longrightarrow>
      FasterWhisperBackend_init h fm name bk
        = map_sum id (\<lambda>md. \<lparr>fwb_model = md, fwb_faster_whisper = fm\<rparr>)
            (WhisperModel fm name (bk_download_dir bk) (get_default (bk_device bk) ''cpu'')
               (get_default (bk_compute_type bk) ''default'')))"
    by (auto simp: FasterWhisperBackend_init_def split: sum.splits)
  from oa mlx fw show ?thesis by blast
qed

theorem construction_outcomes_witness:
  "\<not> importable (host_on ''Linux'' ''x86_64'' []) ''openai''
   \<and> (\<exists>msg. OpenAIWhisperBackend_init (host_on ''Linux'' ''x86_64'' [])
               (openai_package installed) ''whisper-1'' main_kwargs = Inl (ImportError msg))
   \<and> importable (host_on ''Linux'' ''x86_64'' [''openai'']) ''openai''
   \<and> \<not> given (py_or (bk_api_key main_kwargs) (OPENAI_API_KEY (host_on ''Linux'' ''x86_64'' [''openai''])))
   \<and> (\<exists>msg. OpenAIWhisperBackend_init (host_on ''Linux'' ''x86_64'' [''openai''])
               (openai_package installed) ''whisper-1'' main_kwargs = Inl (ValueError msg))
   \<and> py_or (bk_api_key (main_kwargs\<lparr>bk_api_key := Some ''sk-test''\<rparr>))
        (OPENAI_API_KEY (host_on ''Linux'' ''x86_64'' [''openai''])) = Some ''sk-test''
   \<and> map_sum id oa_model_name
        (OpenAIWhisperBackend_init (host_on ''Linux'' ''x86_64'' [''openai''])
           (openai_package installed) ''whisper-1'' (main_kwargs\<lparr>bk_api_key := Some ''sk-test''\<rparr>))
      = Inr ''whisper-1''
   \<and> (\<exists>msg. MLXWhisperBackend_init (host_on ''Linux'' ''x86_64'' [])
               (mlx_whisper_module installed) ''tiny'' main_kwargs = Inl (ImportError msg))
   \<and> map_sum id model_path
        (MLXWhisperBackend_init (host_on ''Darwin'' ''arm64'' [''mlx_whisper''])
           (mlx_whisper_module installed) ''mlx-community/whisper-large-v3-mlx'' main_kwargs)
      = Inr ''mlx-community/whisper-large-v3-mlx''
   \<and> map_sum id model_path
        (MLXWhisperBackend_init (host_on ''Darwin'' ''arm64'' [''mlx_whisper''])
           (mlx_whisper_module installed) ''small'' main_kwargs)
      = Inr ''mlx-community/whisper-small-mlx''
   \<and> map_sum id model_path
        (MLXWhisperBackend_init (host_on ''Darwin'' ''arm64'' [''mlx_whisper''])
           (mlx_whisper_module installed) ''base-int8'' main_kwargs)
      = Inr ''mlx-community/whisper-tiny-mlx''
   \<and> (\<exists>msg. FasterWhisperBackend_init (host_on ''Linux'' ''x86_64'' [])
               (faster_whisper_module installed) ''base-int8'' main_kwargs = Inl (ImportError msg))
   \<and> \<not> isl (FasterWhisperBackend_init (host_on ''Linux'' ''x86_64'' [''faster_whisper''])
               (faster_whisper_module installed) ''base-int8'' main_kwargs)"
proof -
  let ?none = "host_on ''Linux'' ''x86_64'' []"
  let ?oa = "host_on ''Linux'' ''x86_64'' [''openai'']"
  let ?mac = "host_on ''Darwin'' ''arm64'' [''mlx_whisper'']"
  let ?fw = "host_on ''Linux'' ''x86_64'' [''faster_whisper'']"
  let ?key = "main_kwargs\<lparr>bk_api_key := Some ''sk-test''\<rparr>"
  have i: "\<not> importable ?none ''openai''" "\<not> importable ?none ''mlx_whisper''"
    "\<not> importable ?none ''faster_whisper''" "importable ?oa ''openai''"
    "importable ?mac ''mlx_whisper''" "importable ?fw ''faster_whisper''"
    by (simp_all add: importable_def host_on_def)
  have k: "\<not> given (py_or (bk_api_key main_kwargs) (OPENAI_API_KEY ?oa))"
    "py_or (bk_api_key ?key) (OPENAI_API_KEY ?oa) = Some ''sk-test''"
    by (simp_all add: py_or_def main_kwargs_def host_on_def)
  note t1 = construction_outcomes [where h = ?none and om = "openai_package installed"
      and name = "''whisper-1''" and bk = main_kwargs and mm = "mlx_whisper_module installed"]
  note t2 = construction_outcomes [where h = ?oa and om = "openai_package installed"
      and name = "''whisper-1''" and bk = main_kwargs]
  note t3 = construction_outcomes [where h = ?oa and om = "openai_package installed"
      and name = "''whisper-1''" and bk = ?key and key = "''sk-test''"]
  note t4 = construction_outcomes [where h = ?none and mm = "mlx_whisper_module installed"
      and name = "''tiny''" and bk = main_kwargs]
  note t5 = construction_outcomes [where h = ?mac and mm = "mlx_whisper_module installed"
      and name = "''mlx-community/whisper-large-v3-mlx''" and bk = main_kwargs]
  note t6 = construction_outcomes [where h = ?mac and mm = "mlx_whisper_module installed"
      and name = "''small''" and bk = main_kwargs]
  note t7 = construction_outcomes [where h = ?mac and mm = "mlx_whisper_module installed"
      and name = "''base-int8''" and bk = main_kwargs]
  note t8 = construction_outcomes [where h = ?none and fm = "faster_whisper_module installed"
      and name = "''base-int8''" and bk = main_kwargs]
  note t9 = construction_outcomes [where h = ?fw and fm = "faster_whisper_module installed"
      and name = "''base-int8''" and bk = main_kwargs]
  have a: "\<exists>msg. OpenAIWhisperBackend_init ?none (openai_package installed) ''whisper-1''
             main_kwargs = Inl (ImportError msg)"
    using t1 i by blast
  have b: "\<exists>msg. OpenAIWhisperBackend_init ?oa (openai_package installed) ''whisper-1''
             main_kwargs = Inl (ValueError msg)"
    using t2 i k by blast
  have c: "map_sum id oa_model_name
        (OpenAIWhisperBackend_init ?oa (openai_package installed) ''whisper-1'' ?key)
      = Inr ''whisper-1''"
    using t3 i k by (simp add: installed_def openai_answering_def)
  have d: "\<exists>msg. MLXWhisperBackend_init ?none (mlx_whisper_module installed) ''tiny''
             main_kwargs = Inl (ImportError msg)"
    using t4 i by blast
  have e: "map_sum id model_path
        (MLXWhisperBackend_init ?mac (mlx_whisper_module installed)
           ''mlx-community/whisper-large-v3-mlx'' main_kwargs)
      = Inr ''mlx-community/whisper-large-v3-mlx''"
    using t5 i by simp
  have f: "map_sum id model_path
        (MLXWhisperBackend_init ?mac (mlx_whisper_module installed) ''small'' main_kwargs)
      = Inr ''mlx-community/whisper-small-mlx''"
    using t6 i by simp
  have g: "map_sum id model_path
        (MLXWhisperBackend_init ?mac (mlx_whisper_module installed) ''base-int8'' main_kwargs)
      = Inr ''mlx-community/whisper-tiny-mlx''"
    using t7 i by simp
  have h: "\<exists>msg. FasterWhisperBackend_init ?none (faster_whisper_module installed) ''base-int8''
             main_kwargs = Inl (ImportError msg)"
    using t8 i by blast
  have j: "\<not> isl (FasterWhisperBackend_init ?fw (faster_whisper_module installed) ''base-int8''
             main_kwargs)"
    using t9 i by (simp add: installed_def faster_answering_def)
  from i k a b c d e f g h j show ?thesis by blast
qed

text \<open>
  The claim as the specification has it fails: with a model name they do not know, the
  OpenAI and the MLX back ends are constructed all the same, on their default models.
\<close>

theorem unsupported_model_counterexample:
  "''large-v3'' \<notin> set [''whisper-1'']
   \<and> map_sum id oa_model_name
        (OpenAIWhisperBackend_init (host_on ''Linux'' ''x86_64'' [''openai''])
           (openai_package installed) ''large-v3'' (main_kwargs\<lparr>bk_api_key := Some ''sk-test''\<rparr>))
      = Inr ''whisper-1''
   \<and> map_sum id model_path
        (MLXWhisperBackend_init (host_on ''Darwin'' ''arm64'' [''mlx_whisper''])
           (mlx_whisper_module installed) ''base-int8'' main_kwargs)
      = Inr ''mlx-community/whisper-tiny-mlx''"
  by (simp add: OpenAIWhisperBackend_init_def MLXWhisperBackend_init_def importable_def
      host_on_def py_or_def main_kwargs_def installed_def openai_answering_def)

end
